theory Spec2Isabelle
  imports Main "HOL-Library.AList" "HOL-Library.Sublist"
begin

section \<open>Strings\<close>

text \<open>
  JavaScript strings are modelled as \<^typ>\<open>string\<close>. The functions below are the
  string methods the generator calls, on the ASCII range (the identifier charset of a
  project name is ASCII).
\<close>

definition lowerLetters :: string where
  "lowerLetters = ''abcdefghijklmnopqrstuvwxyz''"

definition upperLetters :: string where
  "upperLetters = ''ABCDEFGHIJKLMNOPQRSTUVWXYZ''"

definition digits :: string where
  "digits = ''0123456789''"

text \<open>\<^verbatim>\<open>c.toUpperCase()\<close> for one character: a lower-case letter gives its capital,
  every other character is returned as it is.\<close>

definition toUpperCase :: "char \<Rightarrow> char" where
  "toUpperCase c = (case map_of (zip lowerLetters upperLetters) c of Some u \<Rightarrow> u | None \<Rightarrow> c)"

text \<open>\<^verbatim>\<open>s.charAt(0)\<close> is the empty string on the empty string; \<^verbatim>\<open>s.slice(1)\<close> drops
  the first character.\<close>

definition charAt0 :: "string \<Rightarrow> string" where
  "charAt0 s = take 1 s"

definition slice1 :: "string \<Rightarrow> string" where
  "slice1 s = drop 1 s"

text \<open>\<^verbatim>\<open>s.replace(/-/g, ' ')\<close>: every hyphen of \<open>s\<close> becomes a space.\<close>

definition replaceHyphens :: "string \<Rightarrow> string" where
  "replaceHyphens s = map (\<lambda>c. if c = CHR ''-'' then CHR '' '' else c) s"

text \<open>The character class \<^verbatim>\<open>[a-zA-Z0-9-_]\<close> and the test of
  \<^verbatim>\<open>/^[a-zA-Z0-9-_]+$/\<close>: one character or more, all of them in the class.\<close>

definition isNameChar :: "char \<Rightarrow> bool" where
  "isNameChar c \<longleftrightarrow> c \<in> set (lowerLetters @ upperLetters @ digits @ ''-_'')"

definition validName :: "string \<Rightarrow> bool" where
  "validName s \<longleftrightarrow> s \<noteq> [] \<and> list_all isNameChar s"

text \<open>\<^verbatim>\<open>a || b\<close> on an optional string: \<^verbatim>\<open>undefined\<close> and the empty string are
  falsy.\<close>

definition orElse :: "string option \<Rightarrow> string \<Rightarrow> string" where
  "orElse a b = (case a of None \<Rightarrow> b | Some s \<Rightarrow> if s = [] then b else s)"

text \<open>\<^verbatim>\<open>s.endsWith(t)\<close>, and \<^verbatim>\<open>s.replace(t, '')\<close> with a string pattern: the first
  occurrence of \<open>t\<close> in \<open>s\<close>, wherever it is, is removed; without an occurrence \<open>s\<close> is
  returned unchanged.\<close>

definition endsWith :: "string \<Rightarrow> string \<Rightarrow> bool" where
  "endsWith s t \<longleftrightarrow> length t \<le> length s \<and> drop (length s - length t) s = t"

fun removeFirst :: "string \<Rightarrow> string \<Rightarrow> string" where
  "removeFirst t [] = []"
| "removeFirst t (c # s) =
     (if take (length t) (c # s) = t then drop (length t) (c # s) else c # removeFirst t s)"

section \<open>Project metadata (src/prompts/index.mjs)\<close>

record gitUser =
  userName :: string
  userEmail :: string

record projectInfo =
  name :: string
  title :: string
  description :: string
  author :: string
  license :: string
  email :: string

record options =
  yes :: bool
  git :: bool
  install :: bool

datatype licenseChoice = MIT | ISC | Apache2 | GPL3

fun licenseValue :: "licenseChoice \<Rightarrow> string" where
  "licenseValue MIT = ''MIT''"
| "licenseValue ISC = ''ISC''"
| "licenseValue Apache2 = ''Apache-2.0''"
| "licenseValue GPL3 = ''GPL-3.0''"

text \<open>
  What the user does at the prompts of one run. A prompt that is given \<open>None\<close> (or, for
  the name, no line that passes validation) rejects, as the prompt library does when the
  user interrupts it or the input ends.
\<close>

record answers =
  nameLines :: "string list"
  titleLine :: "string option"
  descriptionLine :: "string option"
  authorLine :: "string option"
  licensePick :: "licenseChoice option"

datatype exn = PromptAborted | IOError | TypeError | SyntaxError

text \<open>The \<^verbatim>\<open>input\<close> prompt: an empty line stands for the default when there is one; with
  a \<^verbatim>\<open>validate\<close> function the prompt asks again until a line passes.\<close>

definition inputDefault :: "string \<Rightarrow> string option \<Rightarrow> exn + string" where
  "inputDefault d l = (case l of None \<Rightarrow> Inl PromptAborted
                        | Some s \<Rightarrow> Inr (if s = [] then d else s))"

fun inputValidated :: "(string \<Rightarrow> bool) \<Rightarrow> string list \<Rightarrow> exn + string" where
  "inputValidated ok [] = Inl PromptAborted"
| "inputValidated ok (l # ls) = (if ok l then Inr l else inputValidated ok ls)"

text \<open>The derived title of lines 13 and 28:
  \<^verbatim>\<open>n.charAt(0).toUpperCase() + n.slice(1).replace(/-/g, ' ')\<close>.\<close>

definition defaultTitle :: "string \<Rightarrow> string" where
  "defaultTitle n = map toUpperCase (charAt0 n) @ replaceHyphens (slice1 n)"

text \<open>Lines 22 to 25: \<^verbatim>\<open>name || await input({message, validate})\<close>. The prompt is shown
  only when the argument is missing or empty, and only the prompt validates.\<close>

definition promptName :: "answers \<Rightarrow> string option \<Rightarrow> (exn + string) \<times> string list" where
  "promptName ans nm =
     (let ask = (inputValidated validName (nameLines ans), [''Package/directory name:''])
      in case nm of None \<Rightarrow> ask
         | Some s \<Rightarrow> if s = [] then ask else (Inr s, []))"

text \<open>
  \<^verbatim>\<open>getProjectInfo(name, options)\<close>. The result of \<^verbatim>\<open>getGitUser()\<close> is the
  parameter \<open>gu\<close>. The second component lists the messages of the prompts that were
  shown, in order.
\<close>

definition getProjectInfo ::
  "gitUser \<Rightarrow> answers \<Rightarrow> string option \<Rightarrow> options \<Rightarrow> (exn + projectInfo) \<times> string list" where
  "getProjectInfo gu ans nm opts =
     (if yes opts then
        (let directoryName = orElse nm ''cli-app'' in
         (Inr \<lparr>name = directoryName, title = defaultTitle directoryName, description = [],
               author = userName gu, license = ''MIT'', email = userEmail gu\<rparr>, []))
      else
        (case promptName ans nm of
           (Inl e, asked0) \<Rightarrow> (Inl e, asked0)
         | (Inr packageName, asked0) \<Rightarrow>
         (let asked1 = asked0 @ [''Human-readable title:''] in
          case inputDefault (defaultTitle packageName) (titleLine ans) of
            Inl e \<Rightarrow> (Inl e, asked1)
          | Inr t \<Rightarrow>
         (let asked2 = asked1 @ [''Project description:''] in
          case inputDefault [] (descriptionLine ans) of
            Inl e \<Rightarrow> (Inl e, asked2)
          | Inr d \<Rightarrow>
         (let asked3 = asked2 @ [''Author:''] in
          case inputDefault (userName gu) (authorLine ans) of
            Inl e \<Rightarrow> (Inl e, asked3)
          | Inr a \<Rightarrow>
         (let asked4 = asked3 @ [''License:''] in
          case licensePick ans of
            None \<Rightarrow> (Inl PromptAborted, asked4)
          | Some l \<Rightarrow>
              (Inr \<lparr>name = packageName, title = t, description = d, author = a,
                    license = licenseValue l, email = userEmail gu\<rparr>, asked4)))))))"

section \<open>The file tree and its operations\<close>

text \<open>
  A path is the list of its components. The target tree is an association list from
  paths to nodes; the root \<open>[]\<close> is always a directory. A file has a content and a
  permission mode. The template tree is read only and is given as the entries the
  directory listing returns, in the order of the listing (sorted by name, see
  \<open>sortedListing\<close> below): it is taken to be apart from the target tree. The content of a file is its text: a file read as \<^verbatim>\<open>utf8\<close> and
  written back has the same content. A JSON number is kept as its literal.

  Every operation on the file system is recorded in \<open>trace\<close> with its success. An
  operation fails when the environment says so (\<open>faulty\<close>, by the position of the
  operation in the trace: any operation may fail, at any time) or when the tree does
  not allow it. A failed operation throws and leaves the tree as it was.
\<close>

type_synonym path = "string list"

datatype node = FileNode string nat | DirNode

datatype entry = FileEntry string string nat | DirEntry string "entry list"

datatype json = JNull | JBool bool | JNumber string | JString string
  | JArray "json list" | JObject "(string \<times> json) list"

datatype io_op =
    EnsureDir path
  | ReadDir path
  | ReadFile path
  | WriteFile path string
  | Chmod path nat
  | Copy path path
  | ReaddirSync path
  | ReadJson path
  | WriteJson path json
  | Exec string path

datatype log_line =
    LogInfo string
  | LogSuccess string
  | LogWarning string
  | LogError string "exn option"

record world =
  files :: "(path \<times> node) list"
  trace :: "(io_op \<times> bool) list"
  console :: "log_line list"

text \<open>
  What the program takes from outside: the failures of the environment, the mode a new
  file gets (0o666 under the umask), the libraries (\<^verbatim>\<open>Handlebars.compile(c)(v)\<close>,
  \<open>None\<close> when it throws; \<^verbatim>\<open>JSON.parse\<close>, \<open>None\<close> when it throws;
  \<^verbatim>\<open>JSON.stringify\<close>; \<^verbatim>\<open>path.resolve\<close>), the working directory, the scaffold
  directory of the package with the tree found there, the git identity and the user at
  the prompts.
\<close>

record env =
  faulty :: "nat \<Rightarrow> bool"
  newFileMode :: nat
  handlebars :: "string \<Rightarrow> projectInfo \<Rightarrow> string option"
  jsonParse :: "string \<Rightarrow> json option"
  jsonStringify :: "json \<Rightarrow> string"
  pathResolve :: "path \<Rightarrow> string \<Rightarrow> path"
  cwd :: path
  scaffoldDir :: path
  scaffold :: "entry list"
  identity :: gitUser
  user :: answers

definition lookup :: "(path \<times> node) list \<Rightarrow> path \<Rightarrow> node option" where
  "lookup fs p = (if p = [] then Some DirNode else map_of fs p)"

definition isFile :: "(path \<times> node) list \<Rightarrow> path \<Rightarrow> bool" where
  "isFile fs p = (case lookup fs p of Some (FileNode c m) \<Rightarrow> True | _ \<Rightarrow> False)"

definition isDir :: "(path \<times> node) list \<Rightarrow> path \<Rightarrow> bool" where
  "isDir fs p = (lookup fs p = Some DirNode)"

text \<open>\<^verbatim>\<open>path.join(dir, name)\<close> for a name without separator: the empty name and
  \<^verbatim>\<open>.\<close> give the directory itself, \<^verbatim>\<open>..\<close> gives its parent.\<close>

definition pathJoin :: "path \<Rightarrow> string \<Rightarrow> path" where
  "pathJoin p n = (if n = [] \<or> n = ''.'' then p else if n = ''..'' then butlast p else p @ [n])"

text \<open>\<^verbatim>\<open>mkdir -p\<close>: fails when the path or one of its ancestors is a file, otherwise
  every missing directory on the way is created.\<close>

definition mkdirs :: "path \<Rightarrow> (path \<times> node) list \<Rightarrow> (path \<times> node) list option" where
  "mkdirs p fs =
     (if list_ex (isFile fs) (prefixes p) then None
      else Some (fold (\<lambda>q. AList.update q DirNode) (tl (prefixes p)) fs))"

text \<open>\<^verbatim>\<open>fs.writeFile\<close>: the parent must be a directory and the path must not be one; an
  existing file keeps its mode.\<close>

definition putFile :: "nat \<Rightarrow> path \<Rightarrow> string \<Rightarrow> (path \<times> node) list \<Rightarrow> (path \<times> node) list option" where
  "putFile dm p c fs =
     (if isDir fs p \<or> \<not> isDir fs (butlast p) then None
      else Some (AList.update p
              (FileNode c (case lookup fs p of Some (FileNode c0 m) \<Rightarrow> m | _ \<Rightarrow> dm)) fs))"

definition setMode :: "path \<Rightarrow> nat \<Rightarrow> (path \<times> node) list \<Rightarrow> (path \<times> node) list option" where
  "setMode p m fs =
     (case lookup fs p of
        None \<Rightarrow> None
      | Some DirNode \<Rightarrow> Some fs
      | Some (FileNode c m0) \<Rightarrow> Some (AList.update p (FileNode c m) fs))"

text \<open>\<^verbatim>\<open>fs.copy\<close> of a file (fs-extra): a directory is never overwritten by a file; the
  parent directory is created when missing; an existing file is replaced; the copy has
  the content and the mode of its source.\<close>

definition putCopy :: "string \<Rightarrow> nat \<Rightarrow> path \<Rightarrow> (path \<times> node) list \<Rightarrow> (path \<times> node) list option" where
  "putCopy c m p fs =
     (if isDir fs p then None
      else case mkdirs (butlast p) fs of
             None \<Rightarrow> None
           | Some fs' \<Rightarrow> Some (AList.update p (FileNode c m) fs'))"

definition children :: "(path \<times> node) list \<Rightarrow> path \<Rightarrow> string list" where
  "children fs p = remdups (map (last \<circ> fst) (filter (\<lambda>(q, n). q \<noteq> [] \<and> butlast q = p) fs))"

text \<open>One operation: \<open>eff\<close> computes its value and the new tree, \<open>None\<close> when the tree
  does not allow the operation.\<close>

definition perform ::
  "env \<Rightarrow> io_op \<Rightarrow> ((path \<times> node) list \<Rightarrow> ('a \<times> (path \<times> node) list) option) \<Rightarrow> world
     \<Rightarrow> (exn + 'a) \<times> world" where
  "perform e op eff w =
     (if faulty e (length (trace w)) then (Inl IOError, w\<lparr>trace := trace w @ [(op, False)]\<rparr>)
      else case eff (files w) of
             None \<Rightarrow> (Inl IOError, w\<lparr>trace := trace w @ [(op, False)]\<rparr>)
           | Some (v, fs) \<Rightarrow> (Inr v, w\<lparr>files := fs, trace := trace w @ [(op, True)]\<rparr>))"

definition ensureDir :: "env \<Rightarrow> path \<Rightarrow> world \<Rightarrow> (exn + unit) \<times> world" where
  "ensureDir e p = perform e (EnsureDir p) (\<lambda>fs. map_option (Pair ()) (mkdirs p fs))"

definition readdir :: "env \<Rightarrow> path \<Rightarrow> world \<Rightarrow> (exn + unit) \<times> world" where
  "readdir e p = perform e (ReadDir p) (\<lambda>fs. Some ((), fs))"

definition readFile :: "env \<Rightarrow> path \<Rightarrow> string \<Rightarrow> world \<Rightarrow> (exn + string) \<times> world" where
  "readFile e p c = perform e (ReadFile p) (\<lambda>fs. Some (c, fs))"

definition writeFile :: "env \<Rightarrow> path \<Rightarrow> string \<Rightarrow> world \<Rightarrow> (exn + unit) \<times> world" where
  "writeFile e p c =
     perform e (WriteFile p c) (\<lambda>fs. map_option (Pair ()) (putFile (newFileMode e) p c fs))"

definition chmod :: "env \<Rightarrow> path \<Rightarrow> nat \<Rightarrow> world \<Rightarrow> (exn + unit) \<times> world" where
  "chmod e p m = perform e (Chmod p m) (\<lambda>fs. map_option (Pair ()) (setMode p m fs))"

definition copy :: "env \<Rightarrow> path \<Rightarrow> string \<Rightarrow> nat \<Rightarrow> path \<Rightarrow> world \<Rightarrow> (exn + unit) \<times> world" where
  "copy e src c m dst = perform e (Copy src dst) (\<lambda>fs. map_option (Pair ()) (putCopy c m dst fs))"

definition existsSync :: "world \<Rightarrow> path \<Rightarrow> bool" where
  "existsSync w p \<longleftrightarrow> lookup (files w) p \<noteq> None"

definition readdirSync :: "env \<Rightarrow> path \<Rightarrow> world \<Rightarrow> (exn + string list) \<times> world" where
  "readdirSync e p =
     perform e (ReaddirSync p) (\<lambda>fs. if isDir fs p then Some (children fs p, fs) else None)"

definition readJson :: "env \<Rightarrow> path \<Rightarrow> world \<Rightarrow> (exn + json) \<times> world" where
  "readJson e p =
     perform e (ReadJson p)
       (\<lambda>fs. case lookup fs p of
                Some (FileNode c m) \<Rightarrow> map_option (\<lambda>j. (j, fs)) (jsonParse e c)
              | _ \<Rightarrow> None)"

definition writeJson :: "env \<Rightarrow> path \<Rightarrow> json \<Rightarrow> world \<Rightarrow> (exn + unit) \<times> world" where
  "writeJson e p j =
     perform e (WriteJson p j)
       (\<lambda>fs. map_option (Pair ()) (putFile (newFileMode e) p (jsonStringify e j) fs))"

text \<open>\<^verbatim>\<open>execPromise(cmd, {cwd})\<close>: only the success of the command is modelled, not what
  it leaves in the tree.\<close>

definition exec :: "env \<Rightarrow> string \<Rightarrow> path \<Rightarrow> world \<Rightarrow> (exn + unit) \<times> world" where
  "exec e cmd dir = perform e (Exec cmd dir) (\<lambda>fs. Some ((), fs))"

section \<open>The logger (src/utils/logger.mjs)\<close>

definition logger_info :: "string \<Rightarrow> world \<Rightarrow> world" where
  "logger_info msg w = w\<lparr>console := console w @ [LogInfo msg]\<rparr>"

definition logger_success :: "string \<Rightarrow> world \<Rightarrow> world" where
  "logger_success msg w = w\<lparr>console := console w @ [LogSuccess msg]\<rparr>"

definition logger_warning :: "string \<Rightarrow> world \<Rightarrow> world" where
  "logger_warning msg w = w\<lparr>console := console w @ [LogWarning msg]\<rparr>"

definition logger_error :: "string \<Rightarrow> exn option \<Rightarrow> world \<Rightarrow> world" where
  "logger_error msg err w = w\<lparr>console := console w @ [LogError msg err]\<rparr>"

text \<open>\<^verbatim>\<open>await\<close> in a \<^verbatim>\<open>try\<close> block: go on with the value, or stop at the exception.\<close>

definition andThen ::
  "(exn + 'a) \<times> world \<Rightarrow> ('a \<Rightarrow> world \<Rightarrow> (exn + 'b) \<times> world) \<Rightarrow> (exn + 'b) \<times> world" where
  "andThen r f = (case r of (Inl x, w) \<Rightarrow> (Inl x, w) | (Inr v, w) \<Rightarrow> f v w)"

section \<open>The template walk (src/utils/fs.mjs)\<close>

definition targetFileName :: "string \<Rightarrow> string" where
  "targetFileName n = removeFirst ''.template'' n"

text \<open>The mode 0o755.\<close>

definition mode755 :: nat where
  "mode755 = 7 * 64 + 5 * 8 + 5"

text \<open>
  The body of the loop for an entry that is not a directory: a file
  \<open>n\<close> of the template directory \<open>tpl\<close> with content \<open>c\<close> and mode \<open>m\<close>.
\<close>

definition copyFileEntry ::
  "env \<Rightarrow> path \<Rightarrow> path \<Rightarrow> projectInfo \<Rightarrow> string \<Rightarrow> string \<Rightarrow> nat \<Rightarrow> world
     \<Rightarrow> (exn + unit) \<times> world" where
  "copyFileEntry e tpl dst variables n c m w =
     (let sourcePath = pathJoin tpl n;
          destPath = pathJoin dst (targetFileName n)
      in
      if endsWith n ''.template'' then
        andThen (readFile e sourcePath c w) (\<lambda>content w1.
          case handlebars e content variables of
            None \<Rightarrow> (Inl SyntaxError, w1)
          | Some processed \<Rightarrow>
              andThen (writeFile e destPath processed w1) (\<lambda>_ w2.
                andThen (if targetFileName n = ''index.mjs'' then chmod e destPath mode755 w2
                         else (Inr (), w2)) (\<lambda>_ w3.
                  (Inr (), logger_info (''Created '' @ targetFileName n) w3))))
      else if n = ''gitignore'' then
        andThen (readFile e sourcePath c w) (\<lambda>content w1.
          andThen (writeFile e (pathJoin dst ''.gitignore'') content w1) (\<lambda>_ w2.
            (Inr (), logger_info ''Created .gitignore'' w2)))
      else
        andThen (copy e sourcePath c m destPath w) (\<lambda>_ w1.
          (Inr (), logger_info (''Copied '' @ n) w1)))"

text \<open>
  \<^verbatim>\<open>copyTemplate(templatePath, targetPath, variables)\<close>, with the listing \<open>es\<close> of
  \<^verbatim>\<open>templatePath\<close>. \<open>copyFiles\<close> is the \<^verbatim>\<open>for\<close> loop: an exception leaves the loop,
  and the value of the recursive call on a directory is dropped. The \<^verbatim>\<open>catch\<close> of
  \<open>copyTemplate\<close> logs the exception and returns \<^verbatim>\<open>false\<close>.
\<close>

fun copyTemplate ::
  "env \<Rightarrow> path \<Rightarrow> path \<Rightarrow> projectInfo \<Rightarrow> entry list \<Rightarrow> world \<Rightarrow> bool \<times> world"
and copyFiles ::
  "env \<Rightarrow> path \<Rightarrow> path \<Rightarrow> projectInfo \<Rightarrow> entry list \<Rightarrow> world \<Rightarrow> (exn + unit) \<times> world" where
  "copyTemplate e tpl dst variables es w =
     (case ensureDir e dst w of
        (Inl x, w1) \<Rightarrow> (False, logger_error ''Failed to copy template'' (Some x) w1)
      | (Inr _, w1) \<Rightarrow>
     (case readdir e tpl w1 of
        (Inl x, w2) \<Rightarrow> (False, logger_error ''Failed to copy template'' (Some x) w2)
      | (Inr _, w2) \<Rightarrow>
     (case copyFiles e tpl dst variables es w2 of
        (Inl x, w3) \<Rightarrow> (False, logger_error ''Failed to copy template'' (Some x) w3)
      | (Inr _, w3) \<Rightarrow> (True, w3))))"
| "copyFiles e tpl dst variables [] w = (Inr (), w)"
| "copyFiles e tpl dst variables (FileEntry n c m # es) w =
     (case copyFileEntry e tpl dst variables n c m w of
        (Inl x, w1) \<Rightarrow> (Inl x, w1)
      | (Inr _, w1) \<Rightarrow> copyFiles e tpl dst variables es w1)"
| "copyFiles e tpl dst variables (DirEntry n sub # es) w =
     (case copyTemplate e (pathJoin tpl n) (pathJoin dst (targetFileName n)) variables sub w of
        (b, w1) \<Rightarrow> copyFiles e tpl dst variables es w1)"

text \<open>
  The name under which the loop writes an entry into the target directory, and whether
  no directory of a tree has a target name that \<^verbatim>\<open>path.join\<close> resolves away (empty,
  \<^verbatim>\<open>.\<close> or \<^verbatim>\<open>..\<close>). They only serve to state the results.
\<close>

fun targetName :: "entry \<Rightarrow> string" where
  "targetName (FileEntry n c m) =
     (if endsWith n ''.template'' then targetFileName n
      else if n = ''gitignore'' then ''.gitignore''
      else targetFileName n)"
| "targetName (DirEntry n sub) = targetFileName n"

fun properDirs :: "entry \<Rightarrow> bool" where
  "properDirs (FileEntry n c m) = True"
| "properDirs (DirEntry n sub) =
     (targetFileName n \<noteq> [] \<and> targetFileName n \<noteq> ''.'' \<and> targetFileName n \<noteq> ''..''
      \<and> list_all properDirs sub)"

fun isFileEntry :: "entry \<Rightarrow> bool" where
  "isFileEntry (FileEntry n c m) = True"
| "isFileEntry (DirEntry n sub) = False"

definition failed :: "(io_op \<times> bool) list \<Rightarrow> bool" where
  "failed t = list_ex (\<lambda>(op, ok). \<not> ok) t"

definition copyErrorLogged :: "log_line list \<Rightarrow> bool" where
  "copyErrorLogged ls =
     list_ex (\<lambda>l. case l of LogError msg err \<Rightarrow> msg = ''Failed to copy template'' \<and> err \<noteq> None
                  | _ \<Rightarrow> False) ls"

text \<open>
  The order of a listing: \<^verbatim>\<open>fs.readdir\<close> returns the names of a directory sorted byte
  by byte, each name once. \<open>sortedListing\<close> says that of a template tree, at every level.
\<close>

fun nameLess :: "string \<Rightarrow> string \<Rightarrow> bool" where
  "nameLess [] [] = False"
| "nameLess [] (y # ys) = True"
| "nameLess (x # xs) [] = False"
| "nameLess (x # xs) (y # ys) =
     ((of_char x :: nat) < of_char y \<or> (x = y \<and> nameLess xs ys))"

fun entryName :: "entry \<Rightarrow> string" where
  "entryName (FileEntry n c m) = n"
| "entryName (DirEntry n sub) = n"

fun listedTree :: "entry \<Rightarrow> bool" where
  "listedTree (FileEntry n c m) = True"
| "listedTree (DirEntry n sub) =
     (sorted_wrt nameLess (map entryName sub) \<and> list_all listedTree sub)"

definition sortedListing :: "entry list \<Rightarrow> bool" where
  "sortedListing es \<longleftrightarrow> sorted_wrt nameLess (map entryName es) \<and> list_all listedTree es"

text \<open>A step that throws whenever one of its operations fails, and that does not log
  the error of the walk itself.\<close>

definition throwsOnFailure :: "world \<Rightarrow> (exn + 'a) \<times> world \<Rightarrow> bool" where
  "throwsOnFailure w rw \<longleftrightarrow>
     (\<exists>t l. trace (snd rw) = trace w @ t \<and> console (snd rw) = console w @ l
        \<and> \<not> copyErrorLogged l \<and> (failed t \<longrightarrow> isl (fst rw)))"

section \<open>The manifest, git and npm (src/utils/npm.mjs, src/utils/git.mjs)\<close>

text \<open>\<^verbatim>\<open>obj.k = v\<close> in a module (strict mode): on an object the property is set, in its
  place when it is there and at the end when it is new; on \<^verbatim>\<open>null\<close> and on a primitive
  value it throws; on an array it sets a property that \<^verbatim>\<open>JSON.stringify\<close> does not
  write.\<close>

definition setProperty :: "string \<Rightarrow> json \<Rightarrow> json \<Rightarrow> exn + json" where
  "setProperty k v j =
     (case j of
        JObject kvs \<Rightarrow> Inr (JObject (AList.update k v kvs))
      | JArray xs \<Rightarrow> Inr (JArray xs)
      | _ \<Rightarrow> Inl TypeError)"

definition thenSet :: "exn + json \<Rightarrow> string \<Rightarrow> json \<Rightarrow> exn + json" where
  "thenSet r k v = (case r of Inl x \<Rightarrow> Inl x | Inr j \<Rightarrow> setProperty k v j)"

text \<open>Lines 108 to 116 of \<^verbatim>\<open>updatePackageJson\<close>: the five assignments.\<close>

definition patchManifest :: "projectInfo \<Rightarrow> json \<Rightarrow> exn + json" where
  "patchManifest i packageJson =
     thenSet (thenSet (thenSet (thenSet (setProperty ''name'' (JString (name i)) packageJson)
       ''description'' (JString (description i)))
       ''author'' (JString (author i)))
       ''license'' (JString (license i)))
       ''bin'' (JObject [(name i, JString ''index.mjs'')])"

definition updatePackageJson :: "env \<Rightarrow> path \<Rightarrow> projectInfo \<Rightarrow> world \<Rightarrow> bool \<times> world" where
  "updatePackageJson e targetDir i w =
     (let packageJsonPath = pathJoin targetDir ''package.json'' in
      case andThen (readJson e packageJsonPath w) (\<lambda>packageJson w1.
             case patchManifest i packageJson of
               Inl x \<Rightarrow> (Inl x, w1)
             | Inr patched \<Rightarrow> writeJson e packageJsonPath patched w1) of
        (Inl x, w2) \<Rightarrow> (False, logger_error ''Failed to update package.json'' (Some x) w2)
      | (Inr _, w2) \<Rightarrow>
          (True, logger_success ''Updated package.json with project information'' w2))"

definition installDependencies :: "env \<Rightarrow> path \<Rightarrow> world \<Rightarrow> bool \<times> world" where
  "installDependencies e targetDir w =
     (case exec e ''npm install'' targetDir
             (logger_info ''Installing dependencies... This might take a few minutes.'' w) of
        (Inl x, w1) \<Rightarrow> (False, logger_error ''Failed to install dependencies'' (Some x) w1)
      | (Inr _, w1) \<Rightarrow> (True, logger_success ''Dependencies installed successfully'' w1))"

definition initGit :: "env \<Rightarrow> path \<Rightarrow> world \<Rightarrow> bool \<times> world" where
  "initGit e targetDir w =
     (case exec e ''git init'' targetDir w of
        (Inl x, w1) \<Rightarrow> (False, logger_warning ''Failed to initialize git repository'' w1)
      | (Inr _, w1) \<Rightarrow> (True, logger_success ''Initialized git repository'' w1))"

section \<open>The create command (src/commands/create.mjs)\<close>

datatype outcome = Exited nat | Returned

definition nl :: string where
  "nl = [CHR 0x0A]"

definition successMessage :: "string \<Rightarrow> string" where
  "successMessage n =
     nl @ ''CLI application '' @ n @ '' created successfully!'' @ nl @ nl
     @ ''Next steps:'' @ nl
     @ ''$ cd '' @ n @ nl
     @ ''$ npm link    # To make the CLI available globally'' @ nl
     @ ''$ npm start   # To run the CLI'' @ nl"

text \<open>Lines 31 to 59: what the command does once the check of the target directory
  has passed. Nothing here inspects the value of \<open>copyTemplate\<close>,
  \<open>updatePackageJson\<close>, \<open>initGit\<close> or \<open>installDependencies\<close>.\<close>

definition createProject :: "env \<Rightarrow> options \<Rightarrow> projectInfo \<Rightarrow> path \<Rightarrow> world \<Rightarrow> outcome \<times> world" where
  "createProject e opts i targetDir w =
     (case ensureDir e targetDir w of
        (Inl x, w1) \<Rightarrow> (Exited 1, logger_error ''Failed to create project:'' (Some x) w1)
      | (Inr _, w1) \<Rightarrow>
          (let w2 = snd (copyTemplate e (scaffoldDir e) targetDir i (scaffold e) w1);
               w3 = snd (updatePackageJson e targetDir i w2);
               w4 = (if git opts then snd (initGit e targetDir w3) else w3);
               w5 = (if install opts then snd (installDependencies e targetDir w4) else w4)
           in (Returned, logger_success (successMessage (name i)) w5)))"

text \<open>
  \<^verbatim>\<open>createCommand(name, options)\<close>. \<^verbatim>\<open>process.exit(1)\<close> ends the run with
  \<open>Exited 1\<close>; a run that returns ends with the exit code 0. \<^verbatim>\<open>fs.existsSync\<close>
  answers from the tree.
\<close>

definition createCommand :: "env \<Rightarrow> string option \<Rightarrow> options \<Rightarrow> world \<Rightarrow> outcome \<times> world" where
  "createCommand e nm opts w =
     (case fst (getProjectInfo (identity e) (user e) nm opts) of
        Inl x \<Rightarrow> (Exited 1, logger_error ''Failed to create project:'' (Some x) w)
      | Inr i \<Rightarrow>
          (let targetDir = pathResolve e (cwd e) (name i) in
           if existsSync w targetDir then
             (case readdirSync e targetDir w of
                (Inl x, w1) \<Rightarrow> (Exited 1, logger_error ''Failed to create project:'' (Some x) w1)
              | (Inr listing, w1) \<Rightarrow>
                  (Exited 1,
                   logger_error
                     (if listing \<noteq> []
                      then ''Directory '' @ name i @ '' already exists and is not empty.''
                      else ''Directory '' @ name i @ '' already exists.'') None w1))
           else createProject e opts i targetDir w))"

section \<open>A sample environment\<close>

text \<open>A concrete environment without failures, a small scaffold and a target tree, on
  which the theorems below are instantiated.\<close>

definition demoInfo :: projectInfo where
  "demoInfo = \<lparr>name = ''demo-cli'', title = ''Demo cli'', description = ''d'',
                author = ''A'', license = ''ISC'', email = ''a@b''\<rparr>"

definition demoManifest :: "(string \<times> json) list" where
  "demoManifest = [(''name'', JString ''cli''), (''version'', JString ''1.0.0''),
                   (''scripts'', JObject [(''start'', JString ''node index.mjs'')])]"

definition demoScaffold :: "entry list" where
  "demoScaffold =
     [FileEntry ''gitignore'' ''node_modules'' 420,
      FileEntry ''index.mjs.template'' ''hello'' 420,
      FileEntry ''package.json'' ''manifest'' 420,
      DirEntry ''test'' [FileEntry ''cli.test.js'' ''t'' 420]]"

definition demoEnv :: env where
  "demoEnv = \<lparr>faulty = (\<lambda>i. False), newFileMode = 420,
     handlebars = (\<lambda>c v. Some (c @ '' '' @ name v)),
     jsonParse = (\<lambda>s. if s = ''manifest'' then Some (JObject demoManifest) else None),
     jsonStringify = (\<lambda>j. ''patched''),
     pathResolve = (\<lambda>d n. d @ [n]), cwd = [''home''],
     scaffoldDir = [''pkg'', ''scaffold''], scaffold = demoScaffold,
     identity = \<lparr>userName = ''A'', userEmail = ''a@b''\<rparr>,
     user = \<lparr>nameLines = [], titleLine = None, descriptionLine = None,
             authorLine = None, licensePick = None\<rparr>\<rparr>"

definition demoWorld :: world where
  "demoWorld = \<lparr>files = [([''home''], DirNode)], trace = [], console = []\<rparr>"

definition demoProject :: world where
  "demoProject = \<lparr>files = [([''home''], DirNode), ([''home'', ''demo-cli''], DirNode),
                           ([''home'', ''demo-cli'', ''package.json''], FileNode ''manifest'' 420)],
                  trace = [], console = []\<rparr>"

definition demoOptions :: options where
  "demoOptions = \<lparr>yes = True, git = True, install = True\<rparr>"

text \<open>The metadata of \<^verbatim>\<open>demo-cli --yes\<close>, a target that exists and is empty, an
  environment in which the sixth operation fails, and four template directories: one
  with the marker inside two names, one with a plain file and a template for the same
  target name, one with a template and a marked name for the same target name, and one
  with a subdirectory whose target name is the parent directory.\<close>

definition demoDefaults :: projectInfo where
  "demoDefaults = \<lparr>name = ''demo-cli'', title = ''Demo cli'', description = [],
                    author = ''A'', license = ''MIT'', email = ''a@b''\<rparr>"


definition demoFaulty :: env where
  "demoFaulty = demoEnv\<lparr>faulty := (\<lambda>i. i = 5)\<rparr>"

definition demoMarked :: "entry list" where
  "demoMarked = [DirEntry ''conf.templates'' [], FileEntry ''notes.template.txt'' ''n'' 420]"

definition demoPlainFirst :: "entry list" where
  "demoPlainFirst = [FileEntry ''index.mjs'' ''plain'' 420,
                     FileEntry ''index.mjs.template'' ''hello'' 420]"

definition demoMarkerClash :: "entry list" where
  "demoMarkerClash = [FileEntry ''index.mjs.template'' ''hello'' 420,
                      FileEntry ''index.template.mjs'' ''plain'' 420]"

definition demoEscape :: "entry list" where
  "demoEscape = [FileEntry ''gitignore'' ''node_modules'' 420,
                 DirEntry ''src'' [DirEntry ''...template'' [FileEntry ''.gitignore'' ''other'' 420]]]"

section \<open>Results\<close>

subsection \<open>Metadata\<close>

lemmas title_defs = defaultTitle_def charAt0_def slice1_def replaceHyphens_def toUpperCase_def
  lowerLetters_def upperLetters_def

text \<open>C9: with the skip-prompts flag and no name, the metadata has the fallback name
  cli-app, an empty description, the license MIT and a title that is not empty (it is
  \<open>Cli app\<close>), and no prompt is shown.\<close>

theorem getProjectInfo_yes_defaults:
  "\<exists>i. getProjectInfo gu ans None (opts\<lparr>yes := True\<rparr>) = (Inr i, [])
      \<and> name i = ''cli-app'' \<and> description i = [] \<and> license i = ''MIT''
      \<and> title i \<noteq> [] \<and> title i = ''Cli app''
      \<and> author i = userName gu \<and> email i = userEmail gu"
  by (simp add: getProjectInfo_def orElse_def title_defs Let_def)

text \<open>C3: what the code does with a name argument outside the identifier charset. The
  name \<^verbatim>\<open>invalid/project:name\<close> does not pass the test of the prompt, and yet with
  the skip-prompts flag it is returned as the name of the metadata, and without the
  flag it is taken as the package name without a prompt: the argument is never
  validated.\<close>

theorem getProjectInfo_name_argument_unchecked:
  "\<not> validName ''invalid/project:name''
   \<and> getProjectInfo gu ans (Some ''invalid/project:name'') (opts\<lparr>yes := True\<rparr>) =
       (Inr \<lparr>name = ''invalid/project:name'', title = ''Invalid/project:name'',
              description = [], author = userName gu, license = ''MIT'',
              email = userEmail gu\<rparr>, [])
   \<and> promptName ans (Some ''invalid/project:name'') = (Inr ''invalid/project:name'', [])"
  by (simp add: getProjectInfo_def promptName_def orElse_def title_defs validName_def
      isNameChar_def digits_def Let_def)

text \<open>The default title of \<^verbatim>\<open>my-app\<close> is \<^verbatim>\<open>My app\<close>, and the title has no hyphen
  after its first character.\<close>

lemma defaultTitle_my_app: "defaultTitle ''my-app'' = ''My app''"
  by (simp add: title_defs)

lemma defaultTitle_tail: "CHR ''-'' \<notin> set (drop 1 (defaultTitle n))"
  by (cases n) (auto simp add: defaultTitle_def charAt0_def slice1_def replaceHyphens_def)

text \<open>C10: what the code does with a name that starts with a hyphen. The name
  \<^verbatim>\<open>-app\<close> is in the identifier charset; its first character is not in the part
  of the name where hyphens are replaced, so the derived title is \<^verbatim>\<open>-app\<close> and
  still has its hyphen.\<close>

theorem defaultTitle_leading_hyphen:
  "validName ''-app''
   \<and> defaultTitle ''-app'' = ''-app''
   \<and> getProjectInfo gu ans (Some ''-app'') (opts\<lparr>yes := True\<rparr>) =
       (Inr \<lparr>name = ''-app'', title = ''-app'', description = [], author = userName gu,
              license = ''MIT'', email = userEmail gu\<rparr>, [])"
  by (simp add: getProjectInfo_def orElse_def title_defs validName_def isNameChar_def Let_def)

subsection \<open>The manifest\<close>

lemmas io_defs = perform_def andThen_def ensureDir_def readdir_def readFile_def writeFile_def chmod_def
  copy_def readdirSync_def readJson_def writeJson_def exec_def putFile_def setMode_def putCopy_def mkdirs_def
  lookup_def isDir_def isFile_def pathJoin_def logger_info_def logger_success_def logger_warning_def
  logger_error_def

lemma lookup_update: "lookup (AList.update p v fs) q = (if q = [] then Some DirNode else if q = p then Some v else lookup fs q)"
  by (simp add: lookup_def update_conv')

lemma perform_Inr:
  "perform e op eff w = (Inr v, w') \<longleftrightarrow>
     (\<not> faulty e (length (trace w)) \<and> (\<exists>fs. eff (files w) = Some (v, fs)
        \<and> w' = w\<lparr>files := fs, trace := trace w @ [(op, True)]\<rparr>))"
  by (auto simp add: perform_def split: option.splits)

lemma perform_Inl:
  "perform e op eff w = (Inl x, w') \<longleftrightarrow>
     (x = IOError \<and> w' = w\<lparr>trace := trace w @ [(op, False)]\<rparr>
        \<and> (faulty e (length (trace w)) \<or> eff (files w) = None))"
  by (auto simp add: perform_def split: option.splits)

lemma andThen_Inr:
  "andThen r f = (Inr v, w') \<longleftrightarrow> (\<exists>u w1. r = (Inr u, w1) \<and> f u w1 = (Inr v, w'))"
  by (cases r) (auto simp add: andThen_def split: sum.splits)

lemma andThen_Inl:
  "andThen r f = (Inl x, w') \<longleftrightarrow> (r = (Inl x, w') \<or> (\<exists>u w1. r = (Inr u, w1) \<and> f u w1 = (Inl x, w')))"
  by (cases r) (auto simp add: andThen_def split: sum.splits)

lemma patchManifest_object:
  "patchManifest i (JObject kvs) =
     Inr (JObject (AList.update ''bin'' (JObject [(name i, JString ''index.mjs'')])
            (AList.update ''license'' (JString (license i))
              (AList.update ''author'' (JString (author i))
                (AList.update ''description'' (JString (description i))
                  (AList.update ''name'' (JString (name i)) kvs))))))"
  by (simp add: patchManifest_def thenSet_def setProperty_def)

lemma readJson_Inr:
  "readJson e p w = (Inr j, w1) \<Longrightarrow>
     \<exists>c m. lookup (files w) p = Some (FileNode c m) \<and> jsonParse e c = Some j
        \<and> w1 = w\<lparr>files := files w, trace := trace w @ [(ReadJson p, True)]\<rparr>"
  by (auto simp add: readJson_def perform_Inr split: option.splits node.splits)

lemma writeJson_Inr:
  "writeJson e p j w = (Inr u, w1) \<Longrightarrow> lookup (files w) p = Some (FileNode c m) \<Longrightarrow>
     w1 = w\<lparr>files := AList.update p (FileNode (jsonStringify e j) m) (files w),
             trace := trace w @ [(WriteJson p j, True)]\<rparr>"
  by (auto simp add: writeJson_def perform_Inr putFile_def split: if_splits)

lemma updatePackageJson_True:
  assumes "updatePackageJson e targetDir i w = (True, w')"
  shows "\<exists>j j' w1 w2. readJson e (targetDir @ [''package.json'']) w = (Inr j, w1)
           \<and> patchManifest i j = Inr j'
           \<and> writeJson e (targetDir @ [''package.json'']) j' w1 = (Inr (), w2)
           \<and> w' = logger_success ''Updated package.json with project information'' w2"
proof -
  let ?p = "targetDir @ [''package.json'']"
  let ?r = "andThen (readJson e ?p w) (\<lambda>packageJson w1.
             case patchManifest i packageJson of
               Inl x \<Rightarrow> (Inl x, w1)
             | Inr patched \<Rightarrow> writeJson e ?p patched w1)"
  obtain r w2 where r: "?r = (r, w2)" by (cases ?r)
  with assms have "r = Inr ()" and w': "w' = logger_success ''Updated package.json with project information'' w2"
    by (auto simp add: updatePackageJson_def pathJoin_def split: sum.splits)
  with r have "?r = (Inr (), w2)" by simp
  then obtain j w1 where "readJson e ?p w = (Inr j, w1)"
    and "(case patchManifest i j of Inl x \<Rightarrow> (Inl x, w1) | Inr patched \<Rightarrow> writeJson e ?p patched w1) = (Inr (), w2)"
    unfolding andThen_Inr by blast
  with w' show ?thesis by (auto split: sum.splits)
qed


lemma updatePackageJson_object:
  assumes f: "lookup (files w) (targetDir @ [''package.json'']) = Some (FileNode c m)"
      and p: "jsonParse e c = Some (JObject kvs)"
      and u: "updatePackageJson e targetDir i w = (True, w')"
  shows "\<exists>kvs'. patchManifest i (JObject kvs) = Inr (JObject kvs')
           \<and> last (trace w') = (WriteJson (targetDir @ [''package.json'']) (JObject kvs'), True)
           \<and> lookup (files w') (targetDir @ [''package.json''])
               = Some (FileNode (jsonStringify e (JObject kvs')) m)"
proof -
  let ?p = "targetDir @ [''package.json'']"
  from updatePackageJson_True [OF u] obtain j j' w1 w2 where
    r: "readJson e ?p w = (Inr j, w1)" and pm: "patchManifest i j = Inr j'"
    and wj: "writeJson e ?p j' w1 = (Inr (), w2)"
    and w': "w' = logger_success ''Updated package.json with project information'' w2"
    by blast
  from readJson_Inr [OF r] f p have j: "j = JObject kvs"
    and w1: "w1 = w\<lparr>files := files w, trace := trace w @ [(ReadJson ?p, True)]\<rparr>" by auto
  from w1 f have f1: "lookup (files w1) ?p = Some (FileNode c m)" by simp
  from pm j obtain kvs' where j': "j' = JObject kvs'"
    by (auto simp add: patchManifest_object)
  from writeJson_Inr [OF wj f1] w' j' pm j show ?thesis
    by (simp add: logger_success_def lookup_update)
qed

text \<open>C7: after a successful patch of a manifest that is a JSON object, the value
  written to package.json has the name, description, author and license of the
  metadata, and its bin entry maps the name of the metadata to the entry-point script
  index.mjs.\<close>

theorem updatePackageJson_fields:
  assumes "lookup (files w) (targetDir @ [''package.json'']) = Some (FileNode c m)"
      and "jsonParse e c = Some (JObject kvs)"
      and "updatePackageJson e targetDir i w = (True, w')"
  shows "\<exists>kvs'. last (trace w') = (WriteJson (targetDir @ [''package.json'']) (JObject kvs'), True)
           \<and> lookup (files w') (targetDir @ [''package.json''])
               = Some (FileNode (jsonStringify e (JObject kvs')) m)
           \<and> map_of kvs' ''name'' = Some (JString (name i))
           \<and> map_of kvs' ''description'' = Some (JString (description i))
           \<and> map_of kvs' ''author'' = Some (JString (author i))
           \<and> map_of kvs' ''license'' = Some (JString (license i))
           \<and> map_of kvs' ''bin'' = Some (JObject [(name i, JString ''index.mjs'')])"
proof -
  from updatePackageJson_object [OF assms] obtain kvs' where
    pm: "patchManifest i (JObject kvs) = Inr (JObject kvs')"
    and rest: "last (trace w') = (WriteJson (targetDir @ [''package.json'']) (JObject kvs'), True)"
      "lookup (files w') (targetDir @ [''package.json''])
               = Some (FileNode (jsonStringify e (JObject kvs')) m)"
    by blast
  from pm have "map_of kvs' ''name'' = Some (JString (name i))"
    "map_of kvs' ''description'' = Some (JString (description i))"
    "map_of kvs' ''author'' = Some (JString (author i))"
    "map_of kvs' ''license'' = Some (JString (license i))"
    "map_of kvs' ''bin'' = Some (JObject [(name i, JString ''index.mjs'')])"
    by (auto simp add: patchManifest_object update_conv')
  with rest show ?thesis by blast
qed

lemma readJson_files: "readJson e p w = (r, w1) \<Longrightarrow> files w1 = files w"
  by (cases r) (auto simp add: readJson_def perform_Inl perform_Inr split: option.splits node.splits)

lemma writeJson_Inl_files: "writeJson e p j w = (Inl x, w1) \<Longrightarrow> files w1 = files w"
  by (auto simp add: writeJson_def perform_Inl)

lemma updatePackageJson_False:
  assumes "updatePackageJson e targetDir i w = (False, w')"
  shows "files w' = files w"
proof -
  let ?p = "targetDir @ [''package.json'']"
  let ?f = "\<lambda>packageJson w1.
             case patchManifest i packageJson of
               Inl x \<Rightarrow> (Inl x, w1)
             | Inr patched \<Rightarrow> writeJson e ?p patched w1"
  let ?r = "andThen (readJson e ?p w) ?f"
  obtain r w2 where r: "?r = (r, w2)" by (cases ?r)
  with assms obtain x where x: "r = Inl x"
    and w': "w' = logger_error ''Failed to update package.json'' (Some x) w2"
    by (auto simp add: updatePackageJson_def pathJoin_def split: sum.splits)
  from r x have "readJson e ?p w = (Inl x, w2)
      \<or> (\<exists>u w1. readJson e ?p w = (Inr u, w1) \<and> ?f u w1 = (Inl x, w2))"
    by (simp add: andThen_Inl)
  then have "files w2 = files w"
  proof
    assume "readJson e ?p w = (Inl x, w2)"
    then show ?thesis by (rule readJson_files)
  next
    assume "\<exists>u w1. readJson e ?p w = (Inr u, w1) \<and> ?f u w1 = (Inl x, w2)"
    then obtain u w1 where a: "readJson e ?p w = (Inr u, w1)" and b: "?f u w1 = (Inl x, w2)"
      by blast
    from a have "files w1 = files w" by (rule readJson_files)
    moreover from b have "files w2 = files w1"
      by (cases "patchManifest i u") (auto dest: writeJson_Inl_files)
    ultimately show ?thesis by simp
  qed
  with w' show ?thesis by (simp add: logger_error_def)
qed

lemma demo_patch:
  "updatePackageJson demoEnv [''home'', ''demo-cli''] demoInfo demoProject =
     (True, \<lparr>files = [([''home''], DirNode), ([''home'', ''demo-cli''], DirNode),
                      ([''home'', ''demo-cli'', ''package.json''], FileNode ''patched'' 420)],
             trace = [(ReadJson [''home'', ''demo-cli'', ''package.json''], True),
                      (WriteJson [''home'', ''demo-cli'', ''package.json'']
                         (JObject [(''name'', JString ''demo-cli''), (''version'', JString ''1.0.0''),
                             (''scripts'', JObject [(''start'', JString ''node index.mjs'')]),
                             (''description'', JString ''d''), (''author'', JString ''A''),
                             (''license'', JString ''ISC''),
                             (''bin'', JObject [(''demo-cli'', JString ''index.mjs'')])]), True)],
             console = [LogSuccess ''Updated package.json with project information'']\<rparr>)"
  by (simp add: updatePackageJson_def io_defs demoEnv_def demoInfo_def demoProject_def demoManifest_def
      patchManifest_def thenSet_def setProperty_def Let_def)

theorem updatePackageJson_fields_witness:
  "lookup (files demoProject) ([''home'', ''demo-cli''] @ [''package.json''])
     = Some (FileNode ''manifest'' 420)
   \<and> jsonParse demoEnv ''manifest'' = Some (JObject demoManifest)
   \<and> fst (updatePackageJson demoEnv [''home'', ''demo-cli''] demoInfo demoProject)
   \<and> (\<exists>kvs'. last (trace (snd (updatePackageJson demoEnv [''home'', ''demo-cli''] demoInfo demoProject)))
               = (WriteJson ([''home'', ''demo-cli''] @ [''package.json'']) (JObject kvs'), True)
           \<and> map_of kvs' ''name'' = Some (JString (name demoInfo))
           \<and> map_of kvs' ''description'' = Some (JString (description demoInfo))
           \<and> map_of kvs' ''author'' = Some (JString (author demoInfo))
           \<and> map_of kvs' ''license'' = Some (JString (license demoInfo))
           \<and> map_of kvs' ''bin'' = Some (JObject [(name demoInfo, JString ''index.mjs'')]))"
proof -
  have h1: "lookup (files demoProject) ([''home'', ''demo-cli''] @ [''package.json''])
      = Some (FileNode ''manifest'' 420)"
    by (simp add: lookup_def demoProject_def)
  have h2: "jsonParse demoEnv ''manifest'' = Some (JObject demoManifest)"
    by (simp add: demoEnv_def)
  have h3: "updatePackageJson demoEnv [''home'', ''demo-cli''] demoInfo demoProject
      = (True, snd (updatePackageJson demoEnv [''home'', ''demo-cli''] demoInfo demoProject))"
    by (simp add: demo_patch)
  have h4: "fst (updatePackageJson demoEnv [''home'', ''demo-cli''] demoInfo demoProject)"
    by (simp add: demo_patch)
  from updatePackageJson_fields [OF h1 h2 h3] h1 h2 h4 show ?thesis
    by blast
qed

text \<open>C8: a patch of a manifest that is a JSON object leaves the value of every key other
  than name, description, author, license and bin as it was; a patch that fails leaves
  the tree as it was.\<close>

theorem updatePackageJson_frame:
  assumes "lookup (files w) (targetDir @ [''package.json'']) = Some (FileNode c m)"
      and "jsonParse e c = Some (JObject kvs)"
      and "updatePackageJson e targetDir i w = (b, w')"
  shows "(b \<longrightarrow> (\<exists>kvs'. last (trace w') = (WriteJson (targetDir @ [''package.json'']) (JObject kvs'), True)
           \<and> lookup (files w') (targetDir @ [''package.json''])
               = Some (FileNode (jsonStringify e (JObject kvs')) m)
           \<and> (\<forall>k. k \<notin> {''name'', ''description'', ''author'', ''license'', ''bin''}
                 \<longrightarrow> map_of kvs' k = map_of kvs k)))
       \<and> (\<not> b \<longrightarrow> files w' = files w)"
proof (cases b)
  case True
  with assms(3) have u: "updatePackageJson e targetDir i w = (True, w')" by simp
  from updatePackageJson_object [OF assms(1,2) u] obtain kvs' where
    pm: "patchManifest i (JObject kvs) = Inr (JObject kvs')"
    and rest: "last (trace w') = (WriteJson (targetDir @ [''package.json'']) (JObject kvs'), True)"
      "lookup (files w') (targetDir @ [''package.json''])
               = Some (FileNode (jsonStringify e (JObject kvs')) m)"
    by blast
  from pm have "\<forall>k. k \<notin> {''name'', ''description'', ''author'', ''license'', ''bin''}
                 \<longrightarrow> map_of kvs' k = map_of kvs k"
    by (auto simp add: patchManifest_object update_conv')
  with rest True show ?thesis by blast
next
  case False
  with assms(3) have "updatePackageJson e targetDir i w = (False, w')" by simp
  then have "files w' = files w" by (rule updatePackageJson_False)
  with False show ?thesis by simp
qed

theorem updatePackageJson_frame_witness:
  "lookup (files demoProject) ([''home'', ''demo-cli''] @ [''package.json''])
     = Some (FileNode ''manifest'' 420)
   \<and> jsonParse demoEnv ''manifest'' = Some (JObject demoManifest)
   \<and> fst (updatePackageJson demoEnv [''home'', ''demo-cli''] demoInfo demoProject)
   \<and> ''version'' \<notin> {''name'', ''description'', ''author'', ''license'', ''bin''}
   \<and> (\<exists>kvs'. last (trace (snd (updatePackageJson demoEnv [''home'', ''demo-cli''] demoInfo demoProject)))
               = (WriteJson ([''home'', ''demo-cli''] @ [''package.json'']) (JObject kvs'), True)
           \<and> map_of kvs' ''version'' = Some (JString ''1.0.0''))"
proof -
  have h1: "lookup (files demoProject) ([''home'', ''demo-cli''] @ [''package.json''])
      = Some (FileNode ''manifest'' 420)"
    by (simp add: lookup_def demoProject_def)
  have h2: "jsonParse demoEnv ''manifest'' = Some (JObject demoManifest)"
    by (simp add: demoEnv_def)
  have h3: "updatePackageJson demoEnv [''home'', ''demo-cli''] demoInfo demoProject
      = (True, snd (updatePackageJson demoEnv [''home'', ''demo-cli''] demoInfo demoProject))"
    by (simp add: demo_patch)
  have h4: "fst (updatePackageJson demoEnv [''home'', ''demo-cli''] demoInfo demoProject)"
    by (simp add: demo_patch)
  have h5: "''version'' \<notin> {''name'', ''description'', ''author'', ''license'', ''bin''}"
    by simp
  have h6: "map_of demoManifest ''version'' = Some (JString ''1.0.0'')"
    by (simp add: demoManifest_def)
  from updatePackageJson_frame [OF h1 h2 h3] obtain kvs' where
    "last (trace (snd (updatePackageJson demoEnv [''home'', ''demo-cli''] demoInfo demoProject)))
       = (WriteJson ([''home'', ''demo-cli''] @ [''package.json'']) (JObject kvs'), True)"
    and "\<forall>k. k \<notin> {''name'', ''description'', ''author'', ''license'', ''bin''}
                 \<longrightarrow> map_of kvs' k = map_of demoManifest k"
    by blast
  with h5 h6 have "\<exists>kvs'. last (trace (snd (updatePackageJson demoEnv [''home'', ''demo-cli''] demoInfo demoProject)))
               = (WriteJson ([''home'', ''demo-cli''] @ [''package.json'']) (JObject kvs'), True)
           \<and> map_of kvs' ''version'' = Some (JString ''1.0.0'')"
    by metis
  with h1 h2 h4 h5 show ?thesis by blast
qed

subsection \<open>The template walk\<close>

lemma lookup_Nil [simp]: "lookup fs [] = Some DirNode"
  by (simp add: lookup_def)

lemma lookup_fold_mkdir:
  "p \<notin> set qs \<Longrightarrow> lookup (fold (\<lambda>q. AList.update q DirNode) qs fs) p = lookup fs p"
  by (induction qs arbitrary: fs) (auto simp add: lookup_update)

lemma mkdirs_keeps_file:
  assumes "mkdirs q fs = Some fs'" and "lookup fs p = Some (FileNode c m)"
  shows "lookup fs' p = Some (FileNode c m)"
proof -
  from assms(1) have nf: "\<not> list_ex (isFile fs) (prefixes q)"
    and fs': "fs' = fold (\<lambda>q. AList.update q DirNode) (tl (prefixes q)) fs"
    by (auto simp add: mkdirs_def split: if_splits)
  from assms(2) have "isFile fs p" by (simp add: isFile_def)
  with nf have "p \<notin> set (prefixes q)" by (auto simp add: list_ex_iff)
  then have "p \<notin> set (tl (prefixes q))" by (metis list.set_sel(2) tl_Nil)
  with fs' assms(2) show ?thesis by (simp add: lookup_fold_mkdir)
qed

lemma putFile_keeps_file:
  "putFile dm q c' fs = Some fs' \<Longrightarrow> p \<noteq> q \<Longrightarrow> lookup fs p = Some (FileNode c m)
     \<Longrightarrow> lookup fs' p = Some (FileNode c m)"
  by (auto simp add: putFile_def lookup_update split: if_splits)

lemma setMode_keeps_file:
  "setMode q m' fs = Some fs' \<Longrightarrow> p \<noteq> q \<Longrightarrow> lookup fs p = Some (FileNode c m)
     \<Longrightarrow> lookup fs' p = Some (FileNode c m)"
  by (auto simp add: setMode_def lookup_update split: option.splits node.splits)

lemma putCopy_keeps_file:
  "putCopy c' m' q fs = Some fs' \<Longrightarrow> p \<noteq> q \<Longrightarrow> lookup fs p = Some (FileNode c m)
     \<Longrightarrow> lookup fs' p = Some (FileNode c m)"
  by (auto simp add: putCopy_def lookup_update dest: mkdirs_keeps_file split: if_splits option.splits)

text \<open>What one operation leaves behind.\<close>

lemma perform_trace:
  "perform e op eff w = (r, w') \<Longrightarrow>
     trace w' = trace w @ [(op, case r of Inl x \<Rightarrow> False | Inr v \<Rightarrow> True)] \<and> console w' = console w"
  by (auto simp add: perform_def split: if_splits option.splits)

lemma perform_keeps_file:
  assumes "perform e op eff w = (r, w')"
    and "\<And>v fs'. eff (files w) = Some (v, fs') \<Longrightarrow> lookup fs' p = Some (FileNode c m)"
    and "lookup (files w) p = Some (FileNode c m)"
  shows "lookup (files w') p = Some (FileNode c m)"
  using assms by (auto simp add: perform_def split: if_splits option.splits)

lemma ensureDir_keeps_file:
  "ensureDir e q w = (r, w') \<Longrightarrow> lookup (files w) p = Some (FileNode c m)
     \<Longrightarrow> lookup (files w') p = Some (FileNode c m)"
  unfolding ensureDir_def by (erule perform_keeps_file) (auto dest: mkdirs_keeps_file)

lemma readdir_files: "readdir e q w = (r, w') \<Longrightarrow> files w' = files w"
  by (auto simp add: readdir_def perform_def split: if_splits)

lemma readFile_files: "readFile e q c w = (r, w') \<Longrightarrow> files w' = files w"
  by (auto simp add: readFile_def perform_def split: if_splits)

lemma writeFile_keeps_file:
  "writeFile e q c' w = (r, w') \<Longrightarrow> p \<noteq> q \<Longrightarrow> lookup (files w) p = Some (FileNode c m)
     \<Longrightarrow> lookup (files w') p = Some (FileNode c m)"
  unfolding writeFile_def by (erule perform_keeps_file) (auto dest: putFile_keeps_file)

lemma chmod_keeps_file:
  "chmod e q m' w = (r, w') \<Longrightarrow> p \<noteq> q \<Longrightarrow> lookup (files w) p = Some (FileNode c m)
     \<Longrightarrow> lookup (files w') p = Some (FileNode c m)"
  unfolding chmod_def by (erule perform_keeps_file) (auto dest: setMode_keeps_file)

lemma copy_keeps_file:
  "copy e src c' m' q w = (r, w') \<Longrightarrow> p \<noteq> q \<Longrightarrow> lookup (files w) p = Some (FileNode c m)
     \<Longrightarrow> lookup (files w') p = Some (FileNode c m)"
  unfolding copy_def by (erule perform_keeps_file) (auto dest: putCopy_keeps_file)


lemma andThen_cases:
  assumes "andThen r f = (y, w')"
  obtains (thrown) x where "r = (Inl x, w')" "y = Inl x"
        | (went) u w1 where "r = (Inr u, w1)" "f u w1 = (y, w')"
  using assms by (cases r) (auto simp add: andThen_def split: sum.splits)

lemma logger_info_files [simp]: "files (logger_info msg w) = files w"
  by (simp add: logger_info_def)

lemma logger_info_trace [simp]: "trace (logger_info msg w) = trace w"
  by (simp add: logger_info_def)

lemma logger_error_files [simp]: "files (logger_error msg x w) = files w"
  by (simp add: logger_error_def)

lemma logger_error_trace [simp]: "trace (logger_error msg x w) = trace w"
  by (simp add: logger_error_def)

lemma pathJoin_cases: "pathJoin d n = d \<or> pathJoin d n = butlast d \<or> pathJoin d n = d @ [n]"
  by (simp add: pathJoin_def)

lemma copyFileEntry_keeps_file:
  assumes run: "copyFileEntry e tpl dst i n c m w = (r, w')"
    and ne: "p \<noteq> pathJoin dst (targetName (FileEntry n c m))"
    and f: "lookup (files w) p = Some (FileNode c0 m0)"
  shows "lookup (files w') p = Some (FileNode c0 m0)"
proof (cases "endsWith n ''.template''")
  case True
  with ne have ne': "p \<noteq> pathJoin dst (targetFileName n)" by simp
  from run True have "andThen (readFile e (pathJoin tpl n) c w) (\<lambda>content w1.
          case handlebars e content i of
            None \<Rightarrow> (Inl SyntaxError, w1)
          | Some processed \<Rightarrow>
              andThen (writeFile e (pathJoin dst (targetFileName n)) processed w1) (\<lambda>_ w2.
                andThen (if targetFileName n = ''index.mjs'' then chmod e (pathJoin dst (targetFileName n)) mode755 w2
                         else (Inr (), w2)) (\<lambda>_ w3.
                  (Inr (), logger_info (''Created '' @ targetFileName n) w3)))) = (r, w')"
    by (simp add: copyFileEntry_def Let_def)
  then show ?thesis
  proof (cases rule: andThen_cases)
    case (thrown x)
    with f show ?thesis by (auto dest: readFile_files)
  next
    case (went content w1)
    from went(1) f have f1: "lookup (files w1) p = Some (FileNode c0 m0)"
      by (auto dest: readFile_files)
    show ?thesis
    proof (cases "handlebars e content i")
      case None
      with went(2) f1 show ?thesis by simp
    next
      case (Some processed)
      with went(2) have "andThen (writeFile e (pathJoin dst (targetFileName n)) processed w1) (\<lambda>_ w2.
                andThen (if targetFileName n = ''index.mjs'' then chmod e (pathJoin dst (targetFileName n)) mode755 w2
                         else (Inr (), w2)) (\<lambda>_ w3.
                  (Inr (), logger_info (''Created '' @ targetFileName n) w3))) = (r, w')"
        by simp
      then show ?thesis
      proof (cases rule: andThen_cases)
        case (thrown x)
        from writeFile_keeps_file [OF thrown(1) ne' f1] show ?thesis .
      next
        case (went u w2)
        from writeFile_keeps_file [OF went(1) ne' f1]
        have f2: "lookup (files w2) p = Some (FileNode c0 m0)" .
        from went(2) show ?thesis
        proof (cases rule: andThen_cases)
          case (thrown x)
          with f2 ne' show ?thesis
            by (auto split: if_splits dest: chmod_keeps_file)
        next
          case (went u' w3)
          with f2 ne' show ?thesis
            by (auto split: if_splits dest: chmod_keeps_file)
        qed
      qed
    qed
  qed
next
  case False
  note nt = this
  show ?thesis
  proof (cases "n = ''gitignore''")
    case True
    with ne nt have ne': "p \<noteq> pathJoin dst ''.gitignore''" by simp
    from run nt True have "andThen (readFile e (pathJoin tpl n) c w) (\<lambda>content w1.
          andThen (writeFile e (pathJoin dst ''.gitignore'') content w1) (\<lambda>_ w2.
            (Inr (), logger_info ''Created .gitignore'' w2))) = (r, w')"
      by (simp add: copyFileEntry_def Let_def)
    then show ?thesis
    proof (cases rule: andThen_cases)
      case (thrown x)
      with f show ?thesis by (auto dest: readFile_files)
    next
      case (went content w1)
      from went(1) f have f1: "lookup (files w1) p = Some (FileNode c0 m0)"
        by (auto dest: readFile_files)
      from went(2) show ?thesis
      proof (cases rule: andThen_cases)
        case (thrown x)
        from writeFile_keeps_file [OF thrown(1) ne' f1] show ?thesis .
      next
        case (went u w2)
        from writeFile_keeps_file [OF went(1) ne' f1] went(2) show ?thesis by auto
      qed
    qed
  next
    case False
    with ne nt have ne': "p \<noteq> pathJoin dst (targetFileName n)" by simp
    from run nt False have "andThen (copy e (pathJoin tpl n) c m (pathJoin dst (targetFileName n)) w) (\<lambda>_ w1.
          (Inr (), logger_info (''Copied '' @ n) w1)) = (r, w')"
      by (simp add: copyFileEntry_def Let_def)
    then show ?thesis
    proof (cases rule: andThen_cases)
      case (thrown x)
      from copy_keeps_file [OF thrown(1) ne' f] show ?thesis .
    next
      case (went u w1)
      from copy_keeps_file [OF went(1) ne' f] went(2) show ?thesis by auto
    qed
  qed
qed


declare copyTemplate.simps [simp del]

lemma pathJoin_proper:
  "n \<noteq> [] \<Longrightarrow> n \<noteq> ''.'' \<Longrightarrow> n \<noteq> ''..'' \<Longrightarrow> pathJoin d n = d @ [n]"
  by (simp add: pathJoin_def)

lemma pathJoin_apart:
  assumes "\<not> prefix d p" and "butlast d \<noteq> p"
  shows "p \<noteq> pathJoin d n"
  using assms pathJoin_cases [of d n] by (auto simp add: prefix_def)

lemma copyTemplate_result:
  "copyTemplate e tpl d i es w = (b, w') \<Longrightarrow>
     (\<exists>r1 w1. ensureDir e d w = (r1, w1) \<and>
        (case r1 of Inl x \<Rightarrow> \<not> b \<and> w' = logger_error ''Failed to copy template'' (Some x) w1
         | Inr _ \<Rightarrow>
        (\<exists>r2 w2. readdir e tpl w1 = (r2, w2) \<and>
        (case r2 of Inl x \<Rightarrow> \<not> b \<and> w' = logger_error ''Failed to copy template'' (Some x) w2
         | Inr _ \<Rightarrow>
        (\<exists>r3 w3. copyFiles e tpl d i es w2 = (r3, w3) \<and>
        (case r3 of Inl x \<Rightarrow> \<not> b \<and> w' = logger_error ''Failed to copy template'' (Some x) w3
         | Inr _ \<Rightarrow> b \<and> w' = w3))))))"
  by (auto simp add: copyTemplate.simps split: prod.splits sum.splits)

lemma walk_keeps_file:
  fixes p :: path
  shows "list_all properDirs es \<Longrightarrow> \<not> prefix d p \<Longrightarrow> butlast d \<noteq> p
      \<Longrightarrow> lookup (files w) p = Some (FileNode c0 m0)
      \<Longrightarrow> lookup (files (snd (copyTemplate e tpl d i es w))) p = Some (FileNode c0 m0)"
    and "list_all properDirs es \<Longrightarrow> \<not> prefix d p \<Longrightarrow> butlast d \<noteq> p
      \<Longrightarrow> lookup (files w) p = Some (FileNode c0 m0)
      \<Longrightarrow> lookup (files (snd (copyFiles e tpl d i es w))) p = Some (FileNode c0 m0)"
proof (induction e tpl d i es w and e tpl d i es w rule: copyTemplate_copyFiles.induct)
  case (1 e tpl dst variables es w)
  obtain b w' where run: "copyTemplate e tpl dst variables es w = (b, w')"
    by (cases "copyTemplate e tpl dst variables es w")
  from copyTemplate_result [OF run] obtain r1 w1 where
    e1: "ensureDir e dst w = (r1, w1)" and
    k1: "case r1 of Inl x \<Rightarrow> \<not> b \<and> w' = logger_error ''Failed to copy template'' (Some x) w1
         | Inr _ \<Rightarrow>
        (\<exists>r2 w2. readdir e tpl w1 = (r2, w2) \<and>
        (case r2 of Inl x \<Rightarrow> \<not> b \<and> w' = logger_error ''Failed to copy template'' (Some x) w2
         | Inr _ \<Rightarrow>
        (\<exists>r3 w3. copyFiles e tpl dst variables es w2 = (r3, w3) \<and>
        (case r3 of Inl x \<Rightarrow> \<not> b \<and> w' = logger_error ''Failed to copy template'' (Some x) w3
         | Inr _ \<Rightarrow> b \<and> w' = w3))))"
    by blast
  from ensureDir_keeps_file [OF e1 "1.prems"(4)]
  have f1: "lookup (files w1) p = Some (FileNode c0 m0)" .
  have "lookup (files w') p = Some (FileNode c0 m0)"
  proof (cases r1)
    case (Inl x)
    with k1 f1 show ?thesis by simp
  next
    case (Inr u)
    with k1 obtain r2 w2 where e2: "readdir e tpl w1 = (r2, w2)" and
      k2: "case r2 of Inl x \<Rightarrow> \<not> b \<and> w' = logger_error ''Failed to copy template'' (Some x) w2
         | Inr _ \<Rightarrow>
        (\<exists>r3 w3. copyFiles e tpl dst variables es w2 = (r3, w3) \<and>
        (case r3 of Inl x \<Rightarrow> \<not> b \<and> w' = logger_error ''Failed to copy template'' (Some x) w3
         | Inr _ \<Rightarrow> b \<and> w' = w3))"
      by auto
    from readdir_files [OF e2] f1 have f2: "lookup (files w2) p = Some (FileNode c0 m0)" by simp
    show ?thesis
    proof (cases r2)
      case (Inl x)
      with k2 f2 show ?thesis by simp
    next
      case (Inr u2)
      with k2 obtain r3 w3 where e3: "copyFiles e tpl dst variables es w2 = (r3, w3)" and
        k3: "case r3 of Inl x \<Rightarrow> \<not> b \<and> w' = logger_error ''Failed to copy template'' (Some x) w3
         | Inr _ \<Rightarrow> b \<and> w' = w3"
        by auto
      from "1.IH" [OF e1 [symmetric] \<open>r1 = Inr u\<close> e2 [symmetric] \<open>r2 = Inr u2\<close>
          "1.prems"(1) "1.prems"(2) "1.prems"(3) f2] e3
      have "lookup (files w3) p = Some (FileNode c0 m0)" by simp
      with k3 show ?thesis by (cases r3) auto
    qed
  qed
  with run show ?case by simp
next
  case (2 e tpl dst variables w)
  then show ?case by simp
next
  case (3 e tpl dst variables n c m es w)
  obtain r w1 where run: "copyFileEntry e tpl dst variables n c m w = (r, w1)"
    by (cases "copyFileEntry e tpl dst variables n c m w")
  from "3.prems"(2,3) have "p \<noteq> pathJoin dst (targetName (FileEntry n c m))"
    by (rule pathJoin_apart)
  from copyFileEntry_keeps_file [OF run this "3.prems"(4)]
  have f1: "lookup (files w1) p = Some (FileNode c0 m0)" .
  show ?case
  proof (cases r)
    case (Inl x)
    with run f1 show ?thesis by simp
  next
    case (Inr u)
    from "3.prems"(1) have "list_all properDirs es" by simp
    from "3.IH" [OF run [symmetric] Inr this "3.prems"(2) "3.prems"(3) f1] run Inr
    show ?thesis by simp
  qed
next
  case (4 e tpl dst variables n sub es w)
  let ?d = "pathJoin dst (targetFileName n)"
  obtain b w1 where run: "copyTemplate e (pathJoin tpl n) ?d variables sub w = (b, w1)"
    by (cases "copyTemplate e (pathJoin tpl n) ?d variables sub w")
  from "4.prems"(1) have sub: "list_all properDirs sub" and es: "list_all properDirs es"
    and d: "?d = dst @ [targetFileName n]"
    by (simp_all add: pathJoin_proper)
  from d "4.prems"(2) have np: "\<not> prefix ?d p"
    by (metis append_prefixD)
  from d "4.prems"(2) have bl: "butlast ?d \<noteq> p" by auto
  from "4.IH"(1) [OF sub np bl "4.prems"(4)] run
  have f1: "lookup (files w1) p = Some (FileNode c0 m0)" by simp
  from "4.IH"(2) [OF run [symmetric] es "4.prems"(2) "4.prems"(3) f1] run
  show ?case by simp
qed


lemma pathJoin_snoc_neq: "n \<noteq> t \<Longrightarrow> dst @ [t] \<noteq> pathJoin dst n"
proof -
  assume "n \<noteq> t"
  have "length (dst @ [t]) \<noteq> length (butlast dst)" by simp
  then have "dst @ [t] \<noteq> butlast dst" by metis
  with \<open>n \<noteq> t\<close> show ?thesis by (simp add: pathJoin_def)
qed

lemma copyFiles_keeps_target:
  "list_all (\<lambda>x. targetName x \<noteq> t \<and> properDirs x) post
     \<Longrightarrow> lookup (files w) (dst @ [t]) = Some (FileNode c0 m0)
     \<Longrightarrow> lookup (files (snd (copyFiles e tpl dst i post w))) (dst @ [t]) = Some (FileNode c0 m0)"
proof (induction post arbitrary: w)
  case Nil
  then show ?case by simp
next
  case (Cons x post)
  from Cons.prems(1) have rest: "list_all (\<lambda>x. targetName x \<noteq> t \<and> properDirs x) post"
    and tx: "targetName x \<noteq> t" and px: "properDirs x" by simp_all
  show ?case
  proof (cases x)
    case (FileEntry n c m)
    obtain r w1 where run: "copyFileEntry e tpl dst i n c m w = (r, w1)"
      by (cases "copyFileEntry e tpl dst i n c m w")
    from tx FileEntry have "dst @ [t] \<noteq> pathJoin dst (targetName (FileEntry n c m))"
      by (simp only: pathJoin_snoc_neq not_False_eq_True)
    from copyFileEntry_keeps_file [OF run this Cons.prems(2)]
    have f1: "lookup (files w1) (dst @ [t]) = Some (FileNode c0 m0)" .
    show ?thesis
    proof (cases r)
      case (Inl y)
      with run f1 FileEntry show ?thesis by simp
    next
      case (Inr u)
      from Cons.IH [OF rest f1] run Inr FileEntry show ?thesis by simp
    qed
  next
    case (DirEntry n sub)
    let ?d = "pathJoin dst (targetFileName n)"
    obtain b w1 where run: "copyTemplate e (pathJoin tpl n) ?d i sub w = (b, w1)"
      by (cases "copyTemplate e (pathJoin tpl n) ?d i sub w")
    from px DirEntry have sub: "list_all properDirs sub" and d: "?d = dst @ [targetFileName n]"
      by (simp_all add: pathJoin_proper)
    from tx DirEntry have "targetFileName n \<noteq> t" by simp
    with d have np: "\<not> prefix ?d (dst @ [t])" by (auto simp add: prefix_def)
    from d have bl: "butlast ?d \<noteq> dst @ [t]" by simp
    from walk_keeps_file(1) [OF sub np bl Cons.prems(2), of e "pathJoin tpl n" i] run
    have f1: "lookup (files w1) (dst @ [t]) = Some (FileNode c0 m0)" by simp
    from Cons.IH [OF rest f1] run DirEntry show ?thesis by simp
  qed
qed


lemma writeFile_Inr:
  "writeFile e p c w = (Inr u, w') \<Longrightarrow>
     (\<exists>m. lookup (files w') p = Some (FileNode c m))
     \<and> trace w' = trace w @ [(WriteFile p c, True)]"
  by (auto simp add: writeFile_def perform_Inr putFile_def lookup_update isDir_def split: if_splits)

lemma chmod_Inr:
  "chmod e p m w = (Inr u, w') \<Longrightarrow> lookup (files w) p = Some (FileNode c m0)
     \<Longrightarrow> lookup (files w') p = Some (FileNode c m)"
  by (auto simp add: chmod_def perform_Inr setMode_def lookup_update)

lemma copyFileEntry_template:
  "endsWith n ''.template'' \<Longrightarrow>
   copyFileEntry e tpl dst i n c m w =
     andThen (readFile e (pathJoin tpl n) c w) (\<lambda>content w1.
          case handlebars e content i of
            None \<Rightarrow> (Inl SyntaxError, w1)
          | Some processed \<Rightarrow>
              andThen (writeFile e (pathJoin dst (targetFileName n)) processed w1) (\<lambda>_ w2.
                andThen (if targetFileName n = ''index.mjs''
                         then chmod e (pathJoin dst (targetFileName n)) mode755 w2
                         else (Inr (), w2)) (\<lambda>_ w3.
                  (Inr (), logger_info (''Created '' @ targetFileName n) w3))))"
  by (simp add: copyFileEntry_def Let_def)

lemma endsWith_gitignore [simp]: "\<not> endsWith ''gitignore'' ''.template''"
  by (simp add: endsWith_def)

lemma copyFileEntry_gitignore:
  "copyFileEntry e tpl dst i ''gitignore'' c m w =
     andThen (readFile e (pathJoin tpl ''gitignore'') c w) (\<lambda>content w1.
          andThen (writeFile e (pathJoin dst ''.gitignore'') content w1) (\<lambda>_ w2.
            (Inr (), logger_info ''Created .gitignore'' w2)))"
  by (simp add: copyFileEntry_def Let_def)

lemma copyFileEntry_verbatim:
  "\<not> endsWith n ''.template'' \<Longrightarrow> n \<noteq> ''gitignore'' \<Longrightarrow>
   copyFileEntry e tpl dst i n c m w =
     andThen (copy e (pathJoin tpl n) c m (pathJoin dst (targetFileName n)) w) (\<lambda>_ w1.
          (Inr (), logger_info (''Copied '' @ n) w1))"
  by (simp add: copyFileEntry_def Let_def)

text \<open>A name without the marker is its own target name, and a verbatim copy has the
  content and the mode of its source.\<close>

lemma removeFirst_absent: "\<not> sublist t s \<Longrightarrow> removeFirst t s = s"
proof (induction s)
  case Nil
  show ?case by simp
next
  case (Cons c s)
  have "take (length t) (c # s) \<noteq> t"
  proof
    assume "take (length t) (c # s) = t"
    then have "c # s = [] @ t @ drop (length t) (c # s)"
      by (metis append_Nil append_take_drop_id)
    then have "sublist t (c # s)" unfolding sublist_def by blast
    with Cons.prems show False by simp
  qed
  moreover from Cons.prems have "\<not> sublist t s" by (auto simp add: sublist_Cons_right)
  ultimately show ?case using Cons.IH by simp
qed

lemma targetFileName_unmarked: "\<not> sublist ''.template'' n \<Longrightarrow> targetFileName n = n"
  by (simp add: targetFileName_def removeFirst_absent)

lemma copy_Inr:
  "copy e src c m p w = (Inr u, w') \<Longrightarrow> lookup (files w') p = Some (FileNode c m)"
  by (auto simp add: copy_def perform_Inr putCopy_def lookup_update isDir_def
      split: if_splits option.splits)

lemma copyFileEntry_verbatim_copy:
  assumes "\<not> endsWith n ''.template''" and "n \<noteq> ''gitignore''"
    and "copyFileEntry e tpl dst i n c m w = (Inr u, w')"
  shows "lookup (files w') (pathJoin dst (targetFileName n)) = Some (FileNode c m)"
proof -
  from assms obtain u1 w1 where
    c: "copy e (pathJoin tpl n) c m (pathJoin dst (targetFileName n)) w = (Inr u1, w1)"
    and w': "w' = logger_info (''Copied '' @ n) w1"
    by (auto simp add: copyFileEntry_verbatim andThen_Inr)
  from copy_Inr [OF c] w' show ?thesis by simp
qed

lemma readFile_Inr:
  "readFile e p c w = (Inr content, w') \<Longrightarrow>
     content = c \<and> files w' = files w \<and> trace w' = trace w @ [(ReadFile p, True)]"
  by (auto simp add: readFile_def perform_Inr)

lemma copyFileEntry_entry_point:
  assumes run: "copyFileEntry e tpl dst i n c m w = (Inr u, w')"
    and t: "endsWith n ''.template''" and ip: "targetFileName n = ''index.mjs''"
  shows "\<exists>c'. handlebars e c i = Some c'
            \<and> lookup (files w') (dst @ [''index.mjs'']) = Some (FileNode c' mode755)"
proof -
  have pj: "pathJoin dst ''index.mjs'' = dst @ [''index.mjs'']" by (simp add: pathJoin_def)
  from run t ip pj have "andThen (readFile e (pathJoin tpl n) c w) (\<lambda>content w1.
          case handlebars e content i of
            None \<Rightarrow> (Inl SyntaxError, w1)
          | Some processed \<Rightarrow>
              andThen (writeFile e (dst @ [''index.mjs'']) processed w1) (\<lambda>_ w2.
                andThen (chmod e (dst @ [''index.mjs'']) mode755 w2) (\<lambda>_ w3.
                  (Inr (), logger_info ''Created index.mjs'' w3)))) = (Inr u, w')"
    by (simp add: copyFileEntry_template cong: if_cong option.case_cong)
  then obtain content w1 where r: "readFile e (pathJoin tpl n) c w = (Inr content, w1)"
    and k1: "(case handlebars e content i of
            None \<Rightarrow> (Inl SyntaxError, w1)
          | Some processed \<Rightarrow>
              andThen (writeFile e (dst @ [''index.mjs'']) processed w1) (\<lambda>_ w2.
                andThen (chmod e (dst @ [''index.mjs'']) mode755 w2) (\<lambda>_ w3.
                  (Inr (), logger_info ''Created index.mjs'' w3)))) = (Inr u, w')"
    unfolding andThen_Inr by blast
  from readFile_Inr [OF r] have cc: "content = c" by simp
  from k1 obtain processed where h: "handlebars e content i = Some processed"
    and k2: "andThen (writeFile e (dst @ [''index.mjs'']) processed w1) (\<lambda>_ w2.
                andThen (chmod e (dst @ [''index.mjs'']) mode755 w2) (\<lambda>_ w3.
                  (Inr (), logger_info ''Created index.mjs'' w3))) = (Inr u, w')"
    by (cases "handlebars e content i") auto
  from k2 obtain u2 w2 where wr: "writeFile e (dst @ [''index.mjs'']) processed w1 = (Inr u2, w2)"
    and k3: "andThen (chmod e (dst @ [''index.mjs'']) mode755 w2) (\<lambda>_ w3.
                  (Inr (), logger_info ''Created index.mjs'' w3)) = (Inr u, w')"
    unfolding andThen_Inr by blast
  from k3 obtain u3 w3 where ch: "chmod e (dst @ [''index.mjs'']) mode755 w2 = (Inr u3, w3)"
    and w': "w' = logger_info ''Created index.mjs'' w3"
    unfolding andThen_Inr by auto
  from writeFile_Inr [OF wr] obtain m1 where
    "lookup (files w2) (dst @ [''index.mjs'']) = Some (FileNode processed m1)" by blast
  from chmod_Inr [OF ch this] w' h cc show ?thesis by simp
qed

lemma copyFiles_append:
  "copyFiles e tpl dst i (pre @ post) w =
     (case copyFiles e tpl dst i pre w of
        (Inl x, w1) \<Rightarrow> (Inl x, w1)
      | (Inr _, w1) \<Rightarrow> copyFiles e tpl dst i post w1)"
proof (induction pre arbitrary: w)
  case Nil
  then show ?case by simp
next
  case (Cons x pre)
  then show ?case
    by (cases x) (auto split: prod.splits sum.splits)
qed

lemma copyTemplate_True:
  assumes "copyTemplate e tpl d i es w = (True, w')"
  shows "\<exists>w1 w2. ensureDir e d w = (Inr (), w1) \<and> readdir e tpl w1 = (Inr (), w2)
           \<and> copyFiles e tpl d i es w2 = (Inr (), w')"
  using assms
  by (auto simp add: copyTemplate.simps logger_error_def split: prod.splits sum.splits)

text \<open>The entry point keeps the mode 0o755 to the end of a walk that returned true when
  no entry handled after the template is written under the name index.mjs and no
  directory handled after it has a target name that \<^verbatim>\<open>path.join\<close> resolves away.\<close>

lemma entry_point_executable:
  assumes run: "copyTemplate e tpl dst i (pre @ FileEntry n c m # post) w = (True, w')"
    and t: "endsWith n ''.template''" and ip: "targetFileName n = ''index.mjs''"
    and post: "\<forall>x \<in> set post. targetName x \<noteq> ''index.mjs'' \<and> properDirs x"
  shows "\<exists>c'. handlebars e c i = Some c'
            \<and> lookup (files w') (dst @ [''index.mjs'']) = Some (FileNode c' mode755)"
proof -
  from copyTemplate_True [OF run] obtain w2 where
    "copyFiles e tpl dst i (pre @ FileEntry n c m # post) w2 = (Inr (), w')" by blast
  then obtain wa where
    "copyFiles e tpl dst i (FileEntry n c m # post) wa = (Inr (), w')"
    by (auto simp add: copyFiles_append split: prod.splits sum.splits)
  then obtain wb where step: "copyFileEntry e tpl dst i n c m wa = (Inr (), wb)"
    and rest: "copyFiles e tpl dst i post wb = (Inr (), w')"
    by (auto split: prod.splits sum.splits)
  from copyFileEntry_entry_point [OF step t ip] obtain c' where
    h: "handlebars e c i = Some c'"
    and f: "lookup (files wb) (dst @ [''index.mjs'']) = Some (FileNode c' mode755)" by blast
  from post have "list_all (\<lambda>x. targetName x \<noteq> ''index.mjs'' \<and> properDirs x) post"
    by (simp add: list_all_iff)
  from copyFiles_keeps_target [OF this f, of e tpl i] rest h show ?thesis by simp
qed


lemma failed_append [simp]: "failed (t @ t') \<longleftrightarrow> failed t \<or> failed t'"
  by (simp add: failed_def)

lemma failed_Nil [simp]: "\<not> failed []"
  by (simp add: failed_def)

lemma failed_single [simp]: "failed [(op, ok)] \<longleftrightarrow> \<not> ok"
  by (simp add: failed_def)

lemma copyErrorLogged_append [simp]:
  "copyErrorLogged (l @ l') \<longleftrightarrow> copyErrorLogged l \<or> copyErrorLogged l'"
  by (simp add: copyErrorLogged_def)

lemma copyErrorLogged_Nil [simp]: "\<not> copyErrorLogged []"
  by (simp add: copyErrorLogged_def)

lemma copyErrorLogged_error [simp]:
  "copyErrorLogged [LogError ''Failed to copy template'' (Some x)]"
  by (simp add: copyErrorLogged_def)

lemma copyErrorLogged_info [simp]: "\<not> copyErrorLogged [LogInfo msg]"
  by (simp add: copyErrorLogged_def)

lemma tof_perform: "throwsOnFailure w (perform e op eff w)"
proof -
  obtain r w' where p: "perform e op eff w = (r, w')" by (cases "perform e op eff w")
  from perform_trace [OF p] have "trace w' = trace w @ [(op, case r of Inl x \<Rightarrow> False | Inr v \<Rightarrow> True)]"
    and "console w' = console w @ []" by simp_all
  moreover have "failed [(op, case r of Inl x \<Rightarrow> False | Inr v \<Rightarrow> True)] \<longrightarrow> isl r"
    by (cases r) simp_all
  ultimately show ?thesis unfolding throwsOnFailure_def p
    by (metis copyErrorLogged_Nil fst_conv snd_conv)
qed

lemma tof_return: "throwsOnFailure w (Inr v, w)"
  unfolding throwsOnFailure_def
  by (rule exI [of _ "[]"], rule exI [of _ "[]"]) simp

lemma tof_throw: "throwsOnFailure w (Inl x, w)"
  unfolding throwsOnFailure_def
  by (rule exI [of _ "[]"], rule exI [of _ "[]"]) simp

lemma tof_info: "throwsOnFailure w (Inr v, logger_info msg w)"
  unfolding throwsOnFailure_def
  by (rule exI [of _ "[]"], rule exI [of _ "[LogInfo msg]"]) (simp add: logger_info_def)

lemma tof_andThen:
  assumes a: "throwsOnFailure w r0" and b: "\<And>u w1. throwsOnFailure w1 (f u w1)"
  shows "throwsOnFailure w (andThen r0 f)"
proof (cases r0)
  case (Pair r w1)
  show ?thesis
  proof (cases r)
    case (Inl x)
    with Pair a show ?thesis by (simp add: andThen_def throwsOnFailure_def)
  next
    case (Inr u)
    from a Pair Inr obtain t l where 1: "trace w1 = trace w @ t" "console w1 = console w @ l"
      "\<not> copyErrorLogged l" "\<not> failed t"
      by (auto simp add: throwsOnFailure_def)
    from b [of w1 u] obtain t' l' where 2: "trace (snd (f u w1)) = trace w1 @ t'"
      "console (snd (f u w1)) = console w1 @ l'" "\<not> copyErrorLogged l'"
      "failed t' \<longrightarrow> isl (fst (f u w1))"
      by (auto simp add: throwsOnFailure_def)
    have "andThen r0 f = f u w1" using Pair Inr by (simp add: andThen_def)
    moreover from 1 2 have "trace (snd (f u w1)) = trace w @ (t @ t')"
      "console (snd (f u w1)) = console w @ (l @ l')" "\<not> copyErrorLogged (l @ l')"
      "failed (t @ t') \<longrightarrow> isl (fst (f u w1))" by simp_all
    ultimately show ?thesis unfolding throwsOnFailure_def by metis
  qed
qed

lemma tof_copyFileEntry: "throwsOnFailure w (copyFileEntry e tpl dst i n c m w)"
  unfolding copyFileEntry_def Let_def readFile_def writeFile_def chmod_def copy_def
  by (auto intro!: tof_andThen tof_perform tof_return tof_throw tof_info split: option.splits)

lemma tof_ensureDir: "throwsOnFailure w (ensureDir e p w)"
  unfolding ensureDir_def by (rule tof_perform)

lemma tof_readdir: "throwsOnFailure w (readdir e p w)"
  unfolding readdir_def by (rule tof_perform)


lemma tofD:
  assumes "throwsOnFailure w rw" and "rw = (r, w')"
  obtains t l where "trace w' = trace w @ t" "console w' = console w @ l"
    "\<not> copyErrorLogged l" "failed t \<longrightarrow> isl r"
  using assms by (auto simp add: throwsOnFailure_def)

lemma walk_reports:
  shows "\<exists>t l. trace (snd (copyTemplate e tpl d i es w)) = trace w @ t
            \<and> console (snd (copyTemplate e tpl d i es w)) = console w @ l
            \<and> (failed t \<or> \<not> fst (copyTemplate e tpl d i es w) \<longrightarrow> copyErrorLogged l)"
    and "\<exists>t l. trace (snd (copyFiles e tpl d i es w)) = trace w @ t
            \<and> console (snd (copyFiles e tpl d i es w)) = console w @ l
            \<and> (failed t \<longrightarrow> copyErrorLogged l \<or> isl (fst (copyFiles e tpl d i es w)))"
proof (induction e tpl d i es w and e tpl d i es w rule: copyTemplate_copyFiles.induct)
  case (1 e tpl dst variables es w)
  obtain b w' where run: "copyTemplate e tpl dst variables es w = (b, w')"
    by (cases "copyTemplate e tpl dst variables es w")
  from copyTemplate_result [OF run] obtain r1 w1 where
    e1: "ensureDir e dst w = (r1, w1)" and
    k1: "case r1 of Inl x \<Rightarrow> \<not> b \<and> w' = logger_error ''Failed to copy template'' (Some x) w1
         | Inr _ \<Rightarrow>
        (\<exists>r2 w2. readdir e tpl w1 = (r2, w2) \<and>
        (case r2 of Inl x \<Rightarrow> \<not> b \<and> w' = logger_error ''Failed to copy template'' (Some x) w2
         | Inr _ \<Rightarrow>
        (\<exists>r3 w3. copyFiles e tpl dst variables es w2 = (r3, w3) \<and>
        (case r3 of Inl x \<Rightarrow> \<not> b \<and> w' = logger_error ''Failed to copy template'' (Some x) w3
         | Inr _ \<Rightarrow> b \<and> w' = w3))))"
    by blast
  from tof_ensureDir e1 obtain t1 l1 where g1: "trace w1 = trace w @ t1" "console w1 = console w @ l1"
    "\<not> copyErrorLogged l1" "failed t1 \<longrightarrow> isl r1"
    by (rule tofD)
  have "\<exists>t l. trace w' = trace w @ t \<and> console w' = console w @ l
            \<and> (failed t \<or> \<not> b \<longrightarrow> copyErrorLogged l)"
  proof (cases r1)
    case (Inl x)
    with k1 g1 have "trace w' = trace w @ t1"
      "console w' = console w @ (l1 @ [LogError ''Failed to copy template'' (Some x)])"
      by (simp_all add: logger_error_def)
    moreover have "copyErrorLogged (l1 @ [LogError ''Failed to copy template'' (Some x)])" by simp
    ultimately show ?thesis by blast
  next
    case (Inr u)
    with k1 obtain r2 w2 where e2: "readdir e tpl w1 = (r2, w2)" and
      k2: "case r2 of Inl x \<Rightarrow> \<not> b \<and> w' = logger_error ''Failed to copy template'' (Some x) w2
         | Inr _ \<Rightarrow>
        (\<exists>r3 w3. copyFiles e tpl dst variables es w2 = (r3, w3) \<and>
        (case r3 of Inl x \<Rightarrow> \<not> b \<and> w' = logger_error ''Failed to copy template'' (Some x) w3
         | Inr _ \<Rightarrow> b \<and> w' = w3))"
      by auto
    from Inr g1 have nf1: "\<not> failed t1" by auto
    from tof_readdir e2 obtain t2 l2 where g2: "trace w2 = trace w1 @ t2" "console w2 = console w1 @ l2"
      "\<not> copyErrorLogged l2" "failed t2 \<longrightarrow> isl r2"
      by (rule tofD)
    show ?thesis
    proof (cases r2)
      case (Inl x)
      with k2 g1 g2 have "trace w' = trace w @ (t1 @ t2)"
        "console w' = console w @ (l1 @ l2 @ [LogError ''Failed to copy template'' (Some x)])"
        by (simp_all add: logger_error_def)
      moreover have "copyErrorLogged (l1 @ l2 @ [LogError ''Failed to copy template'' (Some x)])"
        by simp
      ultimately show ?thesis by blast
    next
      case (Inr u2)
      with k2 obtain r3 w3 where e3: "copyFiles e tpl dst variables es w2 = (r3, w3)" and
        k3: "case r3 of Inl x \<Rightarrow> \<not> b \<and> w' = logger_error ''Failed to copy template'' (Some x) w3
         | Inr _ \<Rightarrow> b \<and> w' = w3"
        by auto
      from Inr g2 have nf2: "\<not> failed t2" by auto
      from "1.IH" [OF e1 [symmetric] \<open>r1 = Inr u\<close> e2 [symmetric] \<open>r2 = Inr u2\<close>] e3
      obtain t3 l3 where g3: "trace w3 = trace w2 @ t3" "console w3 = console w2 @ l3"
        "failed t3 \<longrightarrow> copyErrorLogged l3 \<or> isl r3"
        by auto
      show ?thesis
      proof (cases r3)
        case (Inl x)
        with k3 g1 g2 g3 have "trace w' = trace w @ (t1 @ t2 @ t3)"
          "console w' = console w @ (l1 @ l2 @ l3 @ [LogError ''Failed to copy template'' (Some x)])"
          by (simp_all add: logger_error_def)
        moreover have "copyErrorLogged (l1 @ l2 @ l3 @ [LogError ''Failed to copy template'' (Some x)])"
          by simp
        ultimately show ?thesis by blast
      next
        case (Inr u3)
        with k3 g1 g2 g3 have "trace w' = trace w @ (t1 @ t2 @ t3)"
          "console w' = console w @ (l1 @ l2 @ l3)" "b"
          by simp_all
        moreover from Inr g3 nf1 nf2 have "failed (t1 @ t2 @ t3) \<longrightarrow> copyErrorLogged (l1 @ l2 @ l3)"
          by simp
        ultimately show ?thesis by blast
      qed
    qed
  qed
  with run show ?case by simp
next
  case (2 e tpl dst variables w)
  show ?case by (rule exI [of _ "[]"], rule exI [of _ "[]"]) simp
next
  case (3 e tpl dst variables n c m es w)
  obtain r w1 where run: "copyFileEntry e tpl dst variables n c m w = (r, w1)"
    by (cases "copyFileEntry e tpl dst variables n c m w")
  from tof_copyFileEntry run obtain t1 l1 where g1: "trace w1 = trace w @ t1"
    "console w1 = console w @ l1" "\<not> copyErrorLogged l1" "failed t1 \<longrightarrow> isl r"
    by (rule tofD)
  show ?case
  proof (cases r)
    case (Inl x)
    with run g1 show ?thesis by auto
  next
    case (Inr u)
    from "3.IH" [OF run [symmetric] Inr] obtain t2 l2 where
      g2: "trace (snd (copyFiles e tpl dst variables es w1)) = trace w1 @ t2"
      "console (snd (copyFiles e tpl dst variables es w1)) = console w1 @ l2"
      "failed t2 \<longrightarrow> copyErrorLogged l2 \<or> isl (fst (copyFiles e tpl dst variables es w1))"
      by blast
    from g1 g2 Inr have "trace (snd (copyFiles e tpl dst variables es w1)) = trace w @ (t1 @ t2)"
      "console (snd (copyFiles e tpl dst variables es w1)) = console w @ (l1 @ l2)"
      "failed (t1 @ t2) \<longrightarrow> copyErrorLogged (l1 @ l2) \<or> isl (fst (copyFiles e tpl dst variables es w1))"
      by auto
    then have "\<exists>t l. trace (snd (copyFiles e tpl dst variables es w1)) = trace w @ t
            \<and> console (snd (copyFiles e tpl dst variables es w1)) = console w @ l
            \<and> (failed t \<longrightarrow> copyErrorLogged l \<or> isl (fst (copyFiles e tpl dst variables es w1)))"
      by blast
    with run Inr show ?thesis by simp
  qed
next
  case (4 e tpl dst variables n sub es w)
  let ?d = "pathJoin dst (targetFileName n)"
  obtain b w1 where run: "copyTemplate e (pathJoin tpl n) ?d variables sub w = (b, w1)"
    by (cases "copyTemplate e (pathJoin tpl n) ?d variables sub w")
  from "4.IH"(1) run obtain t1 l1 where g1: "trace w1 = trace w @ t1"
    "console w1 = console w @ l1" "failed t1 \<longrightarrow> copyErrorLogged l1"
    by auto
  from "4.IH"(2) [OF run [symmetric]] obtain t2 l2 where
    g2: "trace (snd (copyFiles e tpl dst variables es w1)) = trace w1 @ t2"
    "console (snd (copyFiles e tpl dst variables es w1)) = console w1 @ l2"
    "failed t2 \<longrightarrow> copyErrorLogged l2 \<or> isl (fst (copyFiles e tpl dst variables es w1))"
    by blast
  from g1 g2 have "trace (snd (copyFiles e tpl dst variables es w1)) = trace w @ (t1 @ t2)"
    "console (snd (copyFiles e tpl dst variables es w1)) = console w @ (l1 @ l2)"
    "failed (t1 @ t2) \<longrightarrow> copyErrorLogged (l1 @ l2) \<or> isl (fst (copyFiles e tpl dst variables es w1))"
    by auto
  then have "\<exists>t l. trace (snd (copyFiles e tpl dst variables es w1)) = trace w @ t
            \<and> console (snd (copyFiles e tpl dst variables es w1)) = console w @ l
            \<and> (failed t \<longrightarrow> copyErrorLogged l \<or> isl (fst (copyFiles e tpl dst variables es w1)))"
    by blast
  with run show ?case by simp
qed


lemma copyFiles_flat:
  "list_all isFileEntry es \<Longrightarrow> throwsOnFailure w (copyFiles e tpl d i es w)"
proof (induction es arbitrary: w)
  case Nil
  show ?case by (simp add: tof_return)
next
  case (Cons x es)
  then obtain n c m where x: "x = FileEntry n c m" and es: "list_all isFileEntry es"
    by (cases x) simp_all
  have "copyFiles e tpl d i (x # es) w
      = andThen (copyFileEntry e tpl d i n c m w) (\<lambda>_ w1. copyFiles e tpl d i es w1)"
    by (simp add: x andThen_def split: prod.splits sum.splits)
  moreover have "throwsOnFailure w
      (andThen (copyFileEntry e tpl d i n c m w) (\<lambda>_ w1. copyFiles e tpl d i es w1))"
    by (rule tof_andThen, rule tof_copyFileEntry, rule Cons.IH, rule es)
  ultimately show ?case by simp
qed

lemma copyTemplate_flat:
  assumes flat: "list_all isFileEntry es"
    and run: "copyTemplate e tpl d i es w = (b, w')"
    and t: "trace w' = trace w @ t" and f: "failed t"
  shows "\<not> b"
proof -
  let ?body = "andThen (ensureDir e d w) (\<lambda>_ w1.
                 andThen (readdir e tpl w1) (\<lambda>_ w2. copyFiles e tpl d i es w2))"
  have tof: "throwsOnFailure w ?body"
    by (intro tof_andThen tof_ensureDir tof_readdir copyFiles_flat flat)
  obtain r w3 where body: "?body = (r, w3)" by (cases ?body)
  have ct: "copyTemplate e tpl d i es w
      = (case r of Inl x \<Rightarrow> (False, logger_error ''Failed to copy template'' (Some x) w3)
         | Inr _ \<Rightarrow> (True, w3))"
    using body by (auto simp add: copyTemplate.simps andThen_def split: prod.splits sum.splits)
  from tof body obtain t' l' where t': "trace w3 = trace w @ t'" and f': "failed t' \<longrightarrow> isl r"
    by (rule tofD)
  from ct run have "trace w' = trace w3" by (cases r) auto
  with t t' have "t = t'" by simp
  with f f' have "isl r" by simp
  with ct run show ?thesis by (cases r) auto
qed

text \<open>A failure during the walk does not leave \<open>copyTemplate\<close> as an exception.
  Whenever an operation of the walk has failed, at any depth, and whenever
  \<open>copyTemplate\<close> returns false, the error has been logged with the message
  \<^verbatim>\<open>Failed to copy template\<close>; and in a directory without subdirectories every
  failed operation makes \<open>copyTemplate\<close> return false.\<close>

lemma copyTemplate_failure_reported:
  assumes "copyTemplate e tpl dst i es w = (b, w')"
  shows "\<exists>t l. trace w' = trace w @ t \<and> console w' = console w @ l
           \<and> (failed t \<longrightarrow> copyErrorLogged l) \<and> (\<not> b \<longrightarrow> copyErrorLogged l)
           \<and> (list_all isFileEntry es \<and> failed t \<longrightarrow> \<not> b)"
proof -
  from walk_reports(1) [of e tpl dst i es w] assms obtain t l where
    t: "trace w' = trace w @ t" and l: "console w' = console w @ l"
    and r: "failed t \<or> \<not> b \<longrightarrow> copyErrorLogged l"
    by auto
  have "list_all isFileEntry es \<and> failed t \<longrightarrow> \<not> b"
    using copyTemplate_flat [OF _ assms t] by blast
  with t l r show ?thesis by blast
qed

lemma copyFiles_trace:
  "\<exists>t. trace (snd (copyFiles e tpl d i es w)) = trace w @ t"
  using walk_reports(2) [of e tpl d i es w] by blast

lemma copyFileEntry_gitignore_write:
  assumes "copyFileEntry e tpl dst i ''gitignore'' c m w = (Inr u, w')"
  shows "trace w' = trace w @ [(ReadFile (tpl @ [''gitignore'']), True),
                               (WriteFile (dst @ [''.gitignore'']) c, True)]"
proof -
  have pj: "pathJoin dst ''.gitignore'' = dst @ [''.gitignore'']"
    "pathJoin tpl ''gitignore'' = tpl @ [''gitignore'']" by (simp_all add: pathJoin_def)
  from assms obtain content w1 where r: "readFile e (tpl @ [''gitignore'']) c w = (Inr content, w1)"
    and k: "andThen (writeFile e (dst @ [''.gitignore'']) content w1) (\<lambda>_ w2.
            (Inr (), logger_info ''Created .gitignore'' w2)) = (Inr u, w')"
    unfolding copyFileEntry_gitignore pj andThen_Inr [of "readFile e (tpl @ [''gitignore'']) c w"]
    by blast
  from k obtain u2 w2 where wr: "writeFile e (dst @ [''.gitignore'']) content w1 = (Inr u2, w2)"
    and w': "w' = logger_info ''Created .gitignore'' w2"
    unfolding andThen_Inr by auto
  from readFile_Inr [OF r] writeFile_Inr [OF wr] w' show ?thesis by simp
qed

text \<open>The loop body for the file gitignore writes its content, as it is, to the file
  .gitignore of the target directory, and in a walk that returned true that write has
  been made for every file named gitignore.\<close>

lemma copyFileEntry_gitignore_file:
  assumes "copyFileEntry e tpl dst i ''gitignore'' c m w = (Inr u, w')"
  shows "\<exists>m'. lookup (files w') (dst @ [''.gitignore'']) = Some (FileNode c m')"
proof -
  have pj: "pathJoin dst ''.gitignore'' = dst @ [''.gitignore'']"
    "pathJoin tpl ''gitignore'' = tpl @ [''gitignore'']" by (simp_all add: pathJoin_def)
  from assms obtain content w1 where r: "readFile e (tpl @ [''gitignore'']) c w = (Inr content, w1)"
    and k: "andThen (writeFile e (dst @ [''.gitignore'']) content w1) (\<lambda>_ w2.
            (Inr (), logger_info ''Created .gitignore'' w2)) = (Inr u, w')"
    unfolding copyFileEntry_gitignore pj andThen_Inr [of "readFile e (tpl @ [''gitignore'']) c w"]
    by blast
  from k obtain u2 w2 where wr: "writeFile e (dst @ [''.gitignore'']) content w1 = (Inr u2, w2)"
    and w': "w' = logger_info ''Created .gitignore'' w2"
    unfolding andThen_Inr by auto
  from readFile_Inr [OF r] writeFile_Inr [OF wr] w' show ?thesis by auto
qed

lemma gitignore_written:
  assumes run: "copyTemplate e tpl dst i es w = (True, w')"
    and g: "FileEntry ''gitignore'' c m \<in> set es"
  shows "\<exists>t. trace w' = trace w @ t \<and> (WriteFile (dst @ [''.gitignore'']) c, True) \<in> set t"
proof -
  from copyTemplate_True [OF run] obtain w1 w2 where
    e1: "ensureDir e dst w = (Inr (), w1)" and e2: "readdir e tpl w1 = (Inr (), w2)"
    and cf: "copyFiles e tpl dst i es w2 = (Inr (), w')" by blast
  from tof_ensureDir e1 obtain t1 l1 where t1: "trace w1 = trace w @ t1" by (rule tofD)
  from tof_readdir e2 obtain t2 l2 where t2: "trace w2 = trace w1 @ t2" by (rule tofD)
  from g obtain pre post where es: "es = pre @ FileEntry ''gitignore'' c m # post"
    by (auto simp add: in_set_conv_decomp)
  from cf es obtain wa where pa: "copyFiles e tpl dst i pre w2 = (Inr (), wa)"
    and "copyFiles e tpl dst i (FileEntry ''gitignore'' c m # post) wa = (Inr (), w')"
    by (auto simp add: copyFiles_append split: prod.splits sum.splits)
  then obtain wb where step: "copyFileEntry e tpl dst i ''gitignore'' c m wa = (Inr (), wb)"
    and rest: "copyFiles e tpl dst i post wb = (Inr (), w')"
    by (auto split: prod.splits sum.splits)
  from copyFiles_trace [of e tpl dst i pre w2] pa obtain ta where ta: "trace wa = trace w2 @ ta"
    by auto
  from copyFiles_trace [of e tpl dst i post wb] rest obtain tb where tb: "trace w' = trace wb @ tb"
    by auto
  from copyFileEntry_gitignore_write [OF step] t1 t2 ta tb
  have "trace w' = trace w @ (t1 @ t2 @ ta @ [(ReadFile (tpl @ [''gitignore'']), True),
                               (WriteFile (dst @ [''.gitignore'']) c, True)] @ tb)"
    by simp
  moreover have "(WriteFile (dst @ [''.gitignore'']) c, True) \<in> set (t1 @ t2 @ ta @ [(ReadFile (tpl @ [''gitignore'']), True),
                               (WriteFile (dst @ [''.gitignore'']) c, True)] @ tb)"
    by simp
  ultimately show ?thesis by blast
qed

text \<open>In a directory of files only, listed in order, the names after gitignore are
  not written to .gitignore: a name whose target name is .gitignore starts with a dot,
  and sorts before gitignore. So after a walk of such a directory that returned true,
  .gitignore holds the content of gitignore.\<close>

lemma removeFirst_head:
  "removeFirst (CHR ''.'' # t) n = CHR ''.'' # r \<Longrightarrow> \<exists>s. n = CHR ''.'' # s"
  by (cases n) (auto split: if_splits)

lemma targetName_after_gitignore:
  assumes "nameLess ''gitignore'' n"
  shows "targetName (FileEntry n c m) \<noteq> ''.gitignore''"
proof
  assume t: "targetName (FileEntry n c m) = ''.gitignore''"
  from assms have ng: "n \<noteq> ''gitignore''" by auto
  with t have "removeFirst ''.template'' n = ''.gitignore''"
    by (simp add: targetFileName_def split: if_splits)
  then obtain s where "n = CHR ''.'' # s" using removeFirst_head by blast
  with assms show False by simp
qed

lemma gitignore_kept_flat:
  assumes run: "copyTemplate e tpl dst i es w = (True, w')"
    and g: "FileEntry ''gitignore'' c m \<in> set es"
    and s: "sortedListing es" and f: "list_all isFileEntry es"
  shows "\<exists>m'. lookup (files w') (dst @ [''.gitignore'']) = Some (FileNode c m')"
proof -
  from g obtain pre post where es: "es = pre @ FileEntry ''gitignore'' c m # post"
    by (auto simp add: in_set_conv_decomp)
  from s es have later: "\<forall>x \<in> set post. nameLess ''gitignore'' (entryName x)"
    by (auto simp add: sortedListing_def sorted_wrt_append)
  have "targetName x \<noteq> ''.gitignore'' \<and> properDirs x" if "x \<in> set post" for x
  proof (cases x)
    case (FileEntry n c' m')
    with later that have "nameLess ''gitignore'' n" by auto
    with FileEntry show ?thesis by (simp only: targetName_after_gitignore properDirs.simps simp_thms)
  next
    case (DirEntry n sub)
    from f es that have "isFileEntry x" by (simp add: list_all_iff)
    with DirEntry show ?thesis by simp
  qed
  then have post: "list_all (\<lambda>x. targetName x \<noteq> ''.gitignore'' \<and> properDirs x) post"
    by (simp add: list_all_iff)
  from copyTemplate_True [OF run] es obtain w2 where
    "copyFiles e tpl dst i (pre @ FileEntry ''gitignore'' c m # post) w2 = (Inr (), w')" by blast
  then obtain wa where
    "copyFiles e tpl dst i (FileEntry ''gitignore'' c m # post) wa = (Inr (), w')"
    by (auto simp add: copyFiles_append split: prod.splits sum.splits)
  then obtain wb where step: "copyFileEntry e tpl dst i ''gitignore'' c m wa = (Inr (), wb)"
    and rest: "copyFiles e tpl dst i post wb = (Inr (), w')"
    by (auto split: prod.splits sum.splits)
  from copyFileEntry_gitignore_file [OF step] obtain m' where
    "lookup (files wb) (dst @ [''.gitignore'']) = Some (FileNode c m')" by blast
  from copyFiles_keeps_target [OF post this, of e tpl i] rest show ?thesis by auto
qed

subsection \<open>The create command\<close>










subsection \<open>Sample runs\<close>

lemmas walk_defs = copyTemplate.simps copyFileEntry_def io_defs endsWith_def targetFileName_def
  mode755_def Let_def


text \<open>Every sample template directory is in the order of a listing.\<close>

lemma demo_sorted:
  "sortedListing demoScaffold" "sortedListing demoMarked" "sortedListing demoPlainFirst"
  "sortedListing demoMarkerClash" "sortedListing demoEscape"
  by (simp_all add: sortedListing_def demoScaffold_def demoMarked_def demoPlainFirst_def
      demoMarkerClash_def demoEscape_def)

lemma demo_resolved:
  "getProjectInfo (identity demoEnv) (user demoEnv) (Some ''demo-cli'') demoOptions = (Inr demoDefaults, [])"
  by (simp add: getProjectInfo_def orElse_def title_defs demoEnv_def demoOptions_def demoDefaults_def Let_def)

lemma demo_walk:
  "copyTemplate demoEnv [''pkg'', ''scaffold''] [''home'', ''demo-cli''] demoDefaults demoScaffold
     \<lparr>files = [([''home''], DirNode), ([''home'', ''demo-cli''], DirNode)],
      trace = [(EnsureDir [''home'', ''demo-cli''], True)], console = []\<rparr> =
  (True,
  \<lparr>files =
     [([''home''], DirNode), ([''home'', ''demo-cli''], DirNode),
      ([''home'', ''demo-cli'', ''.gitignore''], FileNode ''node_modules'' 420),
      ([''home'', ''demo-cli'', ''index.mjs''], FileNode ''hello demo-cli'' 493),
      ([''home'', ''demo-cli'', ''package.json''], FileNode ''manifest'' 420),
      ([''home'', ''demo-cli'', ''test''], DirNode),
      ([''home'', ''demo-cli'', ''test'', ''cli.test.js''], FileNode ''t'' 420)],
     trace =
       [(EnsureDir [''home'', ''demo-cli''], True),
        (EnsureDir [''home'', ''demo-cli''], True),
        (ReadDir [''pkg'', ''scaffold''], True),
        (ReadFile [''pkg'', ''scaffold'', ''gitignore''], True),
        (WriteFile [''home'', ''demo-cli'', ''.gitignore''] ''node_modules'', True),
        (ReadFile [''pkg'', ''scaffold'', ''index.mjs.template''], True),
        (WriteFile [''home'', ''demo-cli'', ''index.mjs''] ''hello demo-cli'', True),
        (Chmod [''home'', ''demo-cli'', ''index.mjs''] 493, True),
        (Copy [''pkg'', ''scaffold'', ''package.json'']
          [''home'', ''demo-cli'', ''package.json''], True),
        (EnsureDir [''home'', ''demo-cli'', ''test''], True),
        (ReadDir [''pkg'', ''scaffold'', ''test''], True),
        (Copy [''pkg'', ''scaffold'', ''test'', ''cli.test.js'']
          [''home'', ''demo-cli'', ''test'', ''cli.test.js''], True)],
     console =
       [LogInfo ''Created .gitignore'', LogInfo ''Created index.mjs'',
        LogInfo ''Copied package.json'', LogInfo ''Copied cli.test.js'']\<rparr>)"
  by (simp add: walk_defs demoEnv_def demoDefaults_def demoScaffold_def)


lemma demo_faulty_walk:
  "copyTemplate demoFaulty [''pkg'', ''scaffold''] [''home'', ''demo-cli''] demoDefaults demoScaffold
     \<lparr>files = [([''home''], DirNode), ([''home'', ''demo-cli''], DirNode)],
      trace = [(EnsureDir [''home'', ''demo-cli''], True)], console = []\<rparr> =
  (False,
  \<lparr>files = [([''home''], DirNode), ([''home'', ''demo-cli''], DirNode),
             ([''home'', ''demo-cli'', ''.gitignore''], FileNode ''node_modules'' 420)],
     trace =
       [(EnsureDir [''home'', ''demo-cli''], True),
        (EnsureDir [''home'', ''demo-cli''], True),
        (ReadDir [''pkg'', ''scaffold''], True),
        (ReadFile [''pkg'', ''scaffold'', ''gitignore''], True),
        (WriteFile [''home'', ''demo-cli'', ''.gitignore''] ''node_modules'', True),
        (ReadFile [''pkg'', ''scaffold'', ''index.mjs.template''], False)],
     console = [LogInfo ''Created .gitignore'',
                LogError ''Failed to copy template'' (Some IOError)]\<rparr>)"
  by (simp add: walk_defs demoFaulty_def demoEnv_def demoDefaults_def demoScaffold_def)

lemma demo_faulty_resolved:
  "getProjectInfo (identity demoFaulty) (user demoFaulty) (Some ''demo-cli'') demoOptions
     = (Inr demoDefaults, [])"
  using demo_resolved by (simp add: demoFaulty_def)

lemma demo_faulty_ensureDir:
  "ensureDir demoFaulty [''home'', ''demo-cli''] demoWorld =
     (Inr (), \<lparr>files = [([''home''], DirNode), ([''home'', ''demo-cli''], DirNode)],
               trace = [(EnsureDir [''home'', ''demo-cli''], True)], console = []\<rparr>)"
  by (simp add: io_defs demoFaulty_def demoEnv_def demoWorld_def)

lemma demo_faulty_patch:
  "updatePackageJson demoFaulty [''home'', ''demo-cli''] demoDefaults
     \<lparr>files = [([''home''], DirNode), ([''home'', ''demo-cli''], DirNode),
               ([''home'', ''demo-cli'', ''.gitignore''], FileNode ''node_modules'' 420)],
      trace =
       [(EnsureDir [''home'', ''demo-cli''], True),
        (EnsureDir [''home'', ''demo-cli''], True),
        (ReadDir [''pkg'', ''scaffold''], True),
        (ReadFile [''pkg'', ''scaffold'', ''gitignore''], True),
        (WriteFile [''home'', ''demo-cli'', ''.gitignore''] ''node_modules'', True),
        (ReadFile [''pkg'', ''scaffold'', ''index.mjs.template''], False)],
      console = [LogInfo ''Created .gitignore'',
                 LogError ''Failed to copy template'' (Some IOError)]\<rparr> =
   (False,
    \<lparr>files = [([''home''], DirNode), ([''home'', ''demo-cli''], DirNode),
               ([''home'', ''demo-cli'', ''.gitignore''], FileNode ''node_modules'' 420)],
      trace =
       [(EnsureDir [''home'', ''demo-cli''], True),
        (EnsureDir [''home'', ''demo-cli''], True),
        (ReadDir [''pkg'', ''scaffold''], True),
        (ReadFile [''pkg'', ''scaffold'', ''gitignore''], True),
        (WriteFile [''home'', ''demo-cli'', ''.gitignore''] ''node_modules'', True),
        (ReadFile [''pkg'', ''scaffold'', ''index.mjs.template''], False),
        (ReadJson [''home'', ''demo-cli'', ''package.json''], False)],
      console = [LogInfo ''Created .gitignore'',
                 LogError ''Failed to copy template'' (Some IOError),
                 LogError ''Failed to update package.json'' (Some IOError)]\<rparr>)"
  by (simp add: updatePackageJson_def io_defs demoFaulty_def demoEnv_def Let_def)

lemma demo_faulty_run:
  "createCommand demoFaulty (Some ''demo-cli'') demoOptions demoWorld =
  (Returned,
  \<lparr>files = [([''home''], DirNode), ([''home'', ''demo-cli''], DirNode),
             ([''home'', ''demo-cli'', ''.gitignore''], FileNode ''node_modules'' 420)],
     trace =
       [(EnsureDir [''home'', ''demo-cli''], True),
        (EnsureDir [''home'', ''demo-cli''], True),
        (ReadDir [''pkg'', ''scaffold''], True),
        (ReadFile [''pkg'', ''scaffold'', ''gitignore''], True),
        (WriteFile [''home'', ''demo-cli'', ''.gitignore''] ''node_modules'', True),
        (ReadFile [''pkg'', ''scaffold'', ''index.mjs.template''], False),
        (ReadJson [''home'', ''demo-cli'', ''package.json''], False),
        (Exec ''git init'' [''home'', ''demo-cli''], True),
        (Exec ''npm install'' [''home'', ''demo-cli''], True)],
     console =
       [LogInfo ''Created .gitignore'',
        LogError ''Failed to copy template'' (Some IOError),
        LogError ''Failed to update package.json'' (Some IOError),
        LogSuccess ''Initialized git repository'',
        LogInfo ''Installing dependencies... This might take a few minutes.'',
        LogSuccess ''Dependencies installed successfully'',
        LogSuccess (successMessage ''demo-cli'')]\<rparr>)"
proof -
  have t: "pathResolve demoFaulty (cwd demoFaulty) ''demo-cli'' = [''home'', ''demo-cli'']"
    and s: "scaffoldDir demoFaulty = [''pkg'', ''scaffold'']" "scaffold demoFaulty = demoScaffold"
    and n: "name demoDefaults = ''demo-cli''"
    and o: "git demoOptions" "install demoOptions"
    and x: "\<not> existsSync demoWorld [''home'', ''demo-cli'']"
    by (simp_all add: demoFaulty_def demoEnv_def demoDefaults_def demoOptions_def existsSync_def
        lookup_def demoWorld_def)
  have g: "initGit demoFaulty d \<lparr>files = fs, trace = [a0, a1, a2, a3, a4, a5, a6], console = l\<rparr>
      = (True, \<lparr>files = fs, trace = [a0, a1, a2, a3, a4, a5, a6, (Exec ''git init'' d, True)],
                console = l @ [LogSuccess ''Initialized git repository'']\<rparr>)"
    for d fs a0 a1 a2 a3 a4 a5 a6 l
    by (simp add: initGit_def exec_def perform_def logger_success_def demoFaulty_def demoEnv_def)
  have i: "installDependencies demoFaulty d
        \<lparr>files = fs, trace = [a0, a1, a2, a3, a4, a5, a6, a7], console = l\<rparr>
      = (True, \<lparr>files = fs, trace = [a0, a1, a2, a3, a4, a5, a6, a7, (Exec ''npm install'' d, True)],
                console = l @ [LogInfo ''Installing dependencies... This might take a few minutes.'',
                               LogSuccess ''Dependencies installed successfully'']\<rparr>)"
    for d fs a0 a1 a2 a3 a4 a5 a6 a7 l
    by (simp add: installDependencies_def exec_def perform_def logger_success_def logger_info_def
        demoFaulty_def demoEnv_def)
  show ?thesis
    by (simp add: createCommand_def createProject_def demo_faulty_resolved t s n o x
        demo_faulty_ensureDir demo_faulty_walk demo_faulty_patch g i logger_success_def Let_def)
qed


lemma demo_marked_run:
  "copyTemplate demoEnv [''tpl''] [''home'', ''out''] demoInfo demoMarked demoWorld =
   (True,
    \<lparr>files = [([''home''], DirNode), ([''home'', ''out''], DirNode),
               ([''home'', ''out'', ''confs''], DirNode),
               ([''home'', ''out'', ''notes.txt''], FileNode ''n'' 420)],
     trace =
       [(EnsureDir [''home'', ''out''], True), (ReadDir [''tpl''], True),
        (EnsureDir [''home'', ''out'', ''confs''], True),
        (ReadDir [''tpl'', ''conf.templates''], True),
        (Copy [''tpl'', ''notes.template.txt''] [''home'', ''out'', ''notes.txt''], True)],
     console = [LogInfo ''Copied notes.template.txt'']\<rparr>)"
  by (simp add: walk_defs demoEnv_def demoInfo_def demoMarked_def demoWorld_def)

lemma demo_plain_first_run:
  "copyTemplate demoEnv [''tpl''] [''home'', ''out''] demoInfo demoPlainFirst demoWorld =
   (True,
    \<lparr>files = [([''home''], DirNode), ([''home'', ''out''], DirNode),
               ([''home'', ''out'', ''index.mjs''], FileNode ''hello demo-cli'' 493)],
     trace =
       [(EnsureDir [''home'', ''out''], True), (ReadDir [''tpl''], True),
        (Copy [''tpl'', ''index.mjs''] [''home'', ''out'', ''index.mjs''], True),
        (ReadFile [''tpl'', ''index.mjs.template''], True),
        (WriteFile [''home'', ''out'', ''index.mjs''] ''hello demo-cli'', True),
        (Chmod [''home'', ''out'', ''index.mjs''] 493, True)],
     console = [LogInfo ''Copied index.mjs'', LogInfo ''Created index.mjs'']\<rparr>)"
  by (simp add: walk_defs demoEnv_def demoInfo_def demoPlainFirst_def demoWorld_def)

lemma demo_marker_clash_run:
  "copyTemplate demoEnv [''tpl''] [''home'', ''out''] demoInfo demoMarkerClash demoWorld =
   (True,
    \<lparr>files = [([''home''], DirNode), ([''home'', ''out''], DirNode),
               ([''home'', ''out'', ''index.mjs''], FileNode ''plain'' 420)],
     trace =
       [(EnsureDir [''home'', ''out''], True), (ReadDir [''tpl''], True),
        (ReadFile [''tpl'', ''index.mjs.template''], True),
        (WriteFile [''home'', ''out'', ''index.mjs''] ''hello demo-cli'', True),
        (Chmod [''home'', ''out'', ''index.mjs''] 493, True),
        (Copy [''tpl'', ''index.template.mjs''] [''home'', ''out'', ''index.mjs''], True)],
     console = [LogInfo ''Created index.mjs'', LogInfo ''Copied index.template.mjs'']\<rparr>)"
  by (simp add: walk_defs demoEnv_def demoInfo_def demoMarkerClash_def demoWorld_def)

lemma demo_escape_run:
  "copyTemplate demoEnv [''tpl''] [''home'', ''out''] demoInfo demoEscape demoWorld =
   (True,
    \<lparr>files = [([''home''], DirNode), ([''home'', ''out''], DirNode),
               ([''home'', ''out'', ''.gitignore''], FileNode ''other'' 420),
               ([''home'', ''out'', ''src''], DirNode)],
     trace =
       [(EnsureDir [''home'', ''out''], True), (ReadDir [''tpl''], True),
        (ReadFile [''tpl'', ''gitignore''], True),
        (WriteFile [''home'', ''out'', ''.gitignore''] ''node_modules'', True),
        (EnsureDir [''home'', ''out'', ''src''], True),
        (ReadDir [''tpl'', ''src''], True),
        (EnsureDir [''home'', ''out''], True),
        (ReadDir [''tpl'', ''src'', ''...template''], True),
        (Copy [''tpl'', ''src'', ''...template'', ''.gitignore'']
          [''home'', ''out'', ''.gitignore''], True)],
     console = [LogInfo ''Created .gitignore'', LogInfo ''Copied .gitignore'']\<rparr>)"
  by (simp add: walk_defs demoEnv_def demoInfo_def demoEscape_def demoWorld_def)



text \<open>C2: what the code does when an operation of the walk fails. The read of the
  template of the entry point fails; \<open>copyTemplate\<close> logs the error and returns false,
  the command drops that value, goes on and returns (exit code 0), its last line is the
  success message, and the entry point was never written.\<close>

theorem createCommand_success_after_failed_walk:
  "fst (createCommand demoFaulty (Some ''demo-cli'') demoOptions demoWorld) = Returned
   \<and> (ReadFile [''pkg'', ''scaffold'', ''index.mjs.template''], False)
       \<in> set (trace (snd (createCommand demoFaulty (Some ''demo-cli'') demoOptions demoWorld)))
   \<and> last (console (snd (createCommand demoFaulty (Some ''demo-cli'') demoOptions demoWorld)))
       = LogSuccess (successMessage ''demo-cli'')
   \<and> lookup (files (snd (createCommand demoFaulty (Some ''demo-cli'') demoOptions demoWorld)))
        [''home'', ''demo-cli'', ''index.mjs''] = None"
  by (simp add: demo_faulty_run lookup_def)

text \<open>C4: what the code does with the marker inside a name. The file
  \<^verbatim>\<open>notes.template.txt\<close> does not end with the marker; it is copied to
  \<^verbatim>\<open>notes.txt\<close>, and the directory \<^verbatim>\<open>conf.templates\<close> is created as
  \<^verbatim>\<open>confs\<close>: the first occurrence of the marker is removed from every name.\<close>

theorem copyTemplate_strips_marker_inside_name:
  "\<not> endsWith ''notes.template.txt'' ''.template''
   \<and> fst (copyTemplate demoEnv [''tpl''] [''home'', ''out''] demoInfo demoMarked demoWorld)
   \<and> lookup (files (snd (copyTemplate demoEnv [''tpl''] [''home'', ''out''] demoInfo demoMarked demoWorld)))
        [''home'', ''out'', ''notes.txt''] = Some (FileNode ''n'' 420)
   \<and> lookup (files (snd (copyTemplate demoEnv [''tpl''] [''home'', ''out''] demoInfo demoMarked demoWorld)))
        [''home'', ''out'', ''notes.template.txt''] = None
   \<and> lookup (files (snd (copyTemplate demoEnv [''tpl''] [''home'', ''out''] demoInfo demoMarked demoWorld)))
        [''home'', ''out'', ''confs''] = Some DirNode
   \<and> lookup (files (snd (copyTemplate demoEnv [''tpl''] [''home'', ''out''] demoInfo demoMarked demoWorld)))
        [''home'', ''out'', ''conf.templates''] = None"
  by (simp add: demo_marked_run lookup_def endsWith_def)

text \<open>On a directory that holds a plain file \<^verbatim>\<open>index.mjs\<close> and the template
  \<^verbatim>\<open>index.mjs.template\<close>, the plain file is listed and copied first and the
  template is written over it: the entry point is the rendered template, with the mode
  0o755.\<close>

lemma entry_point_plain_first:
  "fst (copyTemplate demoEnv [''tpl''] [''home'', ''out''] demoInfo demoPlainFirst demoWorld)
   \<and> lookup (files (snd (copyTemplate demoEnv [''tpl''] [''home'', ''out''] demoInfo demoPlainFirst
                 demoWorld))) [''home'', ''out'', ''index.mjs'']
       = Some (FileNode ''hello demo-cli'' mode755)"
  by (simp add: demo_plain_first_run lookup_def mode755_def)

text \<open>C5: what the code does when a later name holds the marker inside. The directory
  holds \<^verbatim>\<open>index.mjs.template\<close> and, listed after it, the plain file
  \<^verbatim>\<open>index.template.mjs\<close> of mode 0o644. The target name of both is
  \<^verbatim>\<open>index.mjs\<close>, since the first occurrence of the marker is removed from every
  name. The walk returns true, and the entry point of the target is the copy of the
  second file, with the mode 0o644 and without the owner-execute bit.\<close>

theorem entry_point_clobbered_by_marked_name:
  "sortedListing demoMarkerClash
   \<and> endsWith ''index.mjs.template'' ''.template''
   \<and> targetFileName ''index.mjs.template'' = ''index.mjs''
   \<and> \<not> endsWith ''index.template.mjs'' ''.template''
   \<and> targetFileName ''index.template.mjs'' = ''index.mjs''
   \<and> fst (copyTemplate demoEnv [''tpl''] [''home'', ''out''] demoInfo demoMarkerClash demoWorld)
   \<and> lookup (files (snd (copyTemplate demoEnv [''tpl''] [''home'', ''out''] demoInfo demoMarkerClash
                 demoWorld))) [''home'', ''out'', ''index.mjs'']
       = Some (FileNode ''plain'' 420)
   \<and> (420 :: nat) \<noteq> mode755 \<and> (420 div 64) mod 2 = (0 :: nat)"
  by (simp add: demo_sorted demo_marker_clash_run lookup_def endsWith_def targetFileName_def
      mode755_def)

text \<open>C6: what the code does when a later subdirectory has a target name that is the
  parent directory. The directory holds the file \<^verbatim>\<open>gitignore\<close> and, listed after
  it, the directory \<^verbatim>\<open>src\<close> with a subdirectory \<^verbatim>\<open>...template\<close> that holds a
  file \<^verbatim>\<open>.gitignore\<close>. The content of \<^verbatim>\<open>gitignore\<close> is written to
  \<^verbatim>\<open>.gitignore\<close>; then the target name of \<^verbatim>\<open>...template\<close> is \<^verbatim>\<open>..\<close>,
  the walk of that subdirectory writes into the target directory itself, and its file
  is copied over \<^verbatim>\<open>.gitignore\<close>. The walk returns true, and the file
  \<^verbatim>\<open>.gitignore\<close> of the target does not have the content of \<^verbatim>\<open>gitignore\<close>.\<close>

theorem gitignore_clobbered_through_parent:
  "sortedListing demoEscape
   \<and> FileEntry ''gitignore'' ''node_modules'' 420 \<in> set demoEscape
   \<and> targetFileName ''...template'' = ''..''
   \<and> fst (copyTemplate demoEnv [''tpl''] [''home'', ''out''] demoInfo demoEscape demoWorld)
   \<and> (WriteFile [''home'', ''out'', ''.gitignore''] ''node_modules'', True)
       \<in> set (trace (snd (copyTemplate demoEnv [''tpl''] [''home'', ''out''] demoInfo demoEscape
                 demoWorld)))
   \<and> lookup (files (snd (copyTemplate demoEnv [''tpl''] [''home'', ''out''] demoInfo demoEscape
                 demoWorld))) [''home'', ''out'', ''.gitignore'']
       = Some (FileNode ''other'' 420)"
proof -
  have "FileEntry ''gitignore'' ''node_modules'' 420 \<in> set demoEscape"
    by (simp add: demoEscape_def)
  then show ?thesis
    by (simp add: demo_sorted demo_escape_run lookup_def targetFileName_def)
qed

end
